theory Spec2Isabelle
  imports Complex_Main "HOL-Library.Product_Lexorder"
begin

section \<open>Numeric model\<close>

text \<open>
  The module \<^verbatim>\<open>onsager/crystal.py\<close> computes with numpy arrays of shape (3,) and (3,3).
  A 3-vector is modelled as a triple and a 3x3 matrix as a triple of rows. Floating point
  numbers are modelled as real numbers (exact arithmetic), integer arrays as \<open>int\<close>.
  Every tolerance of the source (\<^verbatim>\<open>1e-8\<close>, numpy's \<^verbatim>\<open>rtol = 1e-5\<close>) is kept as written.
  Exceptions of the source are values of the type \<open>error\<close>.
\<close>

datatype error = TypeError | IndexError | ValueError | LinAlgError | UnboundLocalError

type_synonym 'a vec3 = "'a \<times> 'a \<times> 'a"
type_synonym 'a mat3 = "'a vec3 \<times> 'a vec3 \<times> 'a vec3"

definition vmap :: "('a \<Rightarrow> 'b) \<Rightarrow> 'a vec3 \<Rightarrow> 'b vec3" where
  "vmap f v = (case v of (x, y, z) \<Rightarrow> (f x, f y, f z))"

definition vall :: "('a \<Rightarrow> bool) \<Rightarrow> 'a vec3 \<Rightarrow> bool" where
  "vall P v = (case v of (x, y, z) \<Rightarrow> P x \<and> P y \<and> P z)"

definition vadd :: "'a::comm_ring_1 vec3 \<Rightarrow> 'a vec3 \<Rightarrow> 'a vec3" where
  "vadd u v = (case u of (a, b, c) \<Rightarrow> case v of (x, y, z) \<Rightarrow> (a + x, b + y, c + z))"

definition vsub :: "'a::comm_ring_1 vec3 \<Rightarrow> 'a vec3 \<Rightarrow> 'a vec3" where
  "vsub u v = (case u of (a, b, c) \<Rightarrow> case v of (x, y, z) \<Rightarrow> (a - x, b - y, c - z))"

definition vneg :: "'a::comm_ring_1 vec3 \<Rightarrow> 'a vec3" where
  "vneg v = vmap uminus v"

definition smul :: "'a::comm_ring_1 \<Rightarrow> 'a vec3 \<Rightarrow> 'a vec3" where
  "smul k v = vmap (\<lambda>x. k * x) v"

definition zero3 :: "'a::comm_ring_1 vec3" where
  "zero3 = (0, 0, 0)"

text \<open>\<^verbatim>\<open>np.dot(u, v)\<close> and \<^verbatim>\<open>np.cross(u, v)\<close> on two vectors.\<close>

definition dot :: "'a::comm_ring_1 vec3 \<Rightarrow> 'a vec3 \<Rightarrow> 'a" where
  "dot u v = (case u of (a, b, c) \<Rightarrow> case v of (x, y, z) \<Rightarrow> a * x + b * y + c * z)"

definition cross :: "'a::comm_ring_1 vec3 \<Rightarrow> 'a vec3 \<Rightarrow> 'a vec3" where
  "cross u v = (case u of (a, b, c) \<Rightarrow> case v of (x, y, z) \<Rightarrow>
     (b * z - c * y, c * x - a * z, a * y - b * x))"

text \<open>Matrices are stored by rows; \<open>transpose3\<close> is \<^verbatim>\<open>M.T\<close>.\<close>

definition transpose3 :: "'a mat3 \<Rightarrow> 'a mat3" where
  "transpose3 m = (case m of ((a, b, c), (d, e, f), (g, h, i)) \<Rightarrow>
     ((a, d, g), (b, e, h), (c, f, i)))"

definition mat_vec :: "'a::comm_ring_1 mat3 \<Rightarrow> 'a vec3 \<Rightarrow> 'a vec3" where
  "mat_vec m v = (case m of (r0, r1, r2) \<Rightarrow> (dot r0 v, dot r1 v, dot r2 v))"

definition mat_mul :: "'a::comm_ring_1 mat3 \<Rightarrow> 'a mat3 \<Rightarrow> 'a mat3" where
  "mat_mul m n = (case transpose3 n of (c0, c1, c2) \<Rightarrow>
     transpose3 (mat_vec m c0, mat_vec m c1, mat_vec m c2))"

definition eye3 :: "'a::comm_ring_1 mat3" where
  "eye3 = ((1, 0, 0), (0, 1, 0), (0, 0, 1))"

definition mmap :: "('a \<Rightarrow> 'b) \<Rightarrow> 'a mat3 \<Rightarrow> 'b mat3" where
  "mmap f m = vmap (vmap f) m"

definition det3 :: "'a::comm_ring_1 mat3 \<Rightarrow> 'a" where
  "det3 m = (case m of (r0, r1, r2) \<Rightarrow> dot r0 (cross r1 r2))"

definition trace3 :: "'a::comm_ring_1 mat3 \<Rightarrow> 'a" where
  "trace3 m = (case m of ((a, b, c), (d, e, f), (g, h, i)) \<Rightarrow> a + e + i)"

text \<open>
  \<^verbatim>\<open>np.round\<close> and \<^verbatim>\<open>np.around\<close> round to the nearest integer and a tie to the even
  neighbour.
\<close>

definition np_round :: "real \<Rightarrow> int" where
  "np_round x = (let f = \<lfloor>x\<rfloor>; d = x - of_int f in
     if d < 1 / 2 then f else if 1 / 2 < d then f + 1 else if even f then f else f + 1)"

text \<open>
  \<^verbatim>\<open>np.isclose(a, b)\<close> with the default tolerances is \<^verbatim>\<open>|a - b| <= atol + rtol * |b|\<close>,
  \<^verbatim>\<open>atol = 1e-8\<close>, \<^verbatim>\<open>rtol = 1e-5\<close>; \<^verbatim>\<open>np.allclose\<close> is \<^verbatim>\<open>isclose\<close> on every entry.
\<close>

definition isclose :: "real \<Rightarrow> real \<Rightarrow> bool" where
  "isclose a b = (\<bar>a - b\<bar> \<le> 1 / 10 ^ 8 + (1 / 10 ^ 5) * \<bar>b\<bar>)"

definition allclose :: "real vec3 \<Rightarrow> real vec3 \<Rightarrow> bool" where
  "allclose u v = (case u of (a, b, c) \<Rightarrow> case v of (x, y, z) \<Rightarrow>
     isclose a x \<and> isclose b y \<and> isclose c z)"

definition allclose_mat :: "real mat3 \<Rightarrow> real mat3 \<Rightarrow> bool" where
  "allclose_mat m n = (case m of (a, b, c) \<Rightarrow> case n of (x, y, z) \<Rightarrow>
     allclose a x \<and> allclose b y \<and> allclose c z)"

section \<open>Wrapping into the cell\<close>

text \<open>
  \<^verbatim>\<open>
  def incell(vec):  return vec - np.floor(vec + 1.0e-8)
  def inhalf(vec):  return vec - np.floor(vec + 0.5)
  \<close>
\<close>

definition incell :: "real vec3 \<Rightarrow> real vec3" where
  "incell vec = vmap (\<lambda>x. x - of_int \<lfloor>x + 1 / 10 ^ 8\<rfloor>) vec"

definition inhalf :: "real vec3 \<Rightarrow> real vec3" where
  "inhalf vec = vmap (\<lambda>x. x - of_int \<lfloor>x + 1 / 2\<rfloor>) vec"

definition in_range :: "real \<Rightarrow> real \<Rightarrow> real vec3 \<Rightarrow> bool" where
  "in_range lo hi v = vall (\<lambda>x. lo \<le> x \<and> x < hi) v"


section \<open>Python lists\<close>

text \<open>
  \<^verbatim>\<open>xs[i]\<close> with a non-negative index raises \<^verbatim>\<open>IndexError\<close> out of range. Site and
  species indices are positions in a list and are modelled as natural numbers.
\<close>

definition py_index :: "'a list \<Rightarrow> nat \<Rightarrow> error + 'a" where
  "py_index xs i = (if i < length xs then Inr (xs ! i) else Inl IndexError)"


section \<open>Matrix inverse\<close>

text \<open>
  \<^verbatim>\<open>np.linalg.inv\<close> raises \<^verbatim>\<open>LinAlgError\<close> on a singular matrix; otherwise the inverse is
  the adjugate divided by the determinant.
\<close>

definition adj3 :: "'a::comm_ring_1 mat3 \<Rightarrow> 'a mat3" where
  "adj3 m = (case m of ((a, b, c), (d, e, f), (g, h, i)) \<Rightarrow>
     ((e * i - f * h, c * h - b * i, b * f - c * e),
      (f * g - d * i, a * i - c * g, c * d - a * f),
      (d * h - e * g, b * g - a * h, a * e - b * d)))"

definition linalg_inv :: "real mat3 \<Rightarrow> error + real mat3" where
  "linalg_inv m = (if det3 m = 0 then Inl LinAlgError
     else Inr (mmap (\<lambda>x. x / det3 m) (adj3 m)))"

section \<open>Group operations\<close>

text \<open>
  \<^verbatim>\<open>class GroupOp(collections.namedtuple('GroupOp', 'rot trans cartrot indexmap'))\<close>:
  an integer rotation, a real translation, the Cartesian rotation and, for each species,
  the list of indices the positions are sent to.
\<close>

record GroupOp =
  rot :: "int mat3"
  trans :: "real vec3"
  cartrot :: "real mat3"
  indexmap :: "nat list list"

text \<open>
  \<^verbatim>\<open>
  def ident(cls, basis):
      return cls(rot=np.eye(3, dtype=int), trans=np.zeros(3), cartrot=np.eye(3),
                 indexmap=[[i for i in range(len(atomlist))] for atomlist in basis])
  \<close>
\<close>

definition ident :: "real vec3 list list \<Rightarrow> GroupOp" where
  "ident basis = \<lparr>rot = eye3, trans = zero3, cartrot = eye3,
     indexmap = map (\<lambda>atomlist. [0..<length atomlist]) basis\<rparr>"




text \<open>
  \<^verbatim>\<open>__eq__\<close>: the rotations and the index maps are compared exactly, the translation and
  the Cartesian rotation with \<^verbatim>\<open>np.allclose(self, other)\<close>.
\<close>

definition GroupOp_eq :: "GroupOp \<Rightarrow> GroupOp \<Rightarrow> bool" where
  "GroupOp_eq self other = (rot self = rot other \<and> allclose (trans self) (trans other) \<and>
     allclose_mat (cartrot self) (cartrot other) \<and> indexmap self = indexmap other)"

text \<open>
  \<^verbatim>\<open>g in G\<close> for a frozenset \<open>G\<close>: the hash is a function of \<^verbatim>\<open>rot\<close> alone, and a stored
  element \<open>e\<close> matches when \<^verbatim>\<open>e == g\<close>.
\<close>

definition in_group :: "GroupOp \<Rightarrow> GroupOp list \<Rightarrow> bool" where
  "in_group g G = list_ex (\<lambda>e. GroupOp_eq e g) G"




section \<open>Matching a translation\<close>

text \<open>
  Both \<^verbatim>\<open>maptranslation\<close> and \<^verbatim>\<open>Crystal.reduce\<close> start with the same scan for the longest
  species list:
  \<^verbatim>\<open>
  maxlen = 0
  atomindex = 0
  for i, ulist in enumerate(oldpos):
      if len(ulist) > maxlen:
          maxlen = len(ulist)
          atomindex = i
  \<close>
\<close>

definition longest_list :: "'a list list \<Rightarrow> nat \<times> nat" where
  "longest_list oldpos = foldl (\<lambda>(maxlen, atomindex) (i, ulist).
       if length ulist > maxlen then (length ulist, i) else (maxlen, atomindex))
     (0, 0) (enumerate 0 oldpos)"

text \<open>The test \<^verbatim>\<open>np.all(abs(inhalf(uj - rua - trans)) < threshold)\<close>.\<close>

definition close_mod_cell :: "real \<Rightarrow> real vec3 \<Rightarrow> real vec3 \<Rightarrow> real vec3 \<Rightarrow> bool" where
  "close_mod_cell threshold uj rua trans' =
     vall (\<lambda>x. \<bar>x\<bar> < threshold) (inhalf (vsub (vsub uj rua) trans'))"

text \<open>
  \<^verbatim>\<open>
  maplist = []
  for rua in atomlist1:
      for j, uj in enumerate(atomlist0):
          if np.all(abs(inhalf(uj - rua - trans))<threshold):
              maplist.append(j)
              break
  \<close>
  The inner loop appends the first matching index, or nothing.
\<close>

definition first_match :: "real \<Rightarrow> real vec3 list \<Rightarrow> real vec3 \<Rightarrow> real vec3 \<Rightarrow> nat option" where
  "first_match threshold atomlist0 rua trans' =
     map_option fst (find (\<lambda>(j, uj). close_mod_cell threshold uj rua trans') (enumerate 0 atomlist0))"

definition maplist_of :: "real \<Rightarrow> real vec3 list \<Rightarrow> real vec3 list \<Rightarrow> real vec3 \<Rightarrow> nat list" where
  "maplist_of threshold atomlist0 atomlist1 trans' =
     concat (map (\<lambda>rua. case first_match threshold atomlist0 rua trans' of
        None \<Rightarrow> [] | Some j \<Rightarrow> [j]) atomlist1)"

text \<open>
  \<^verbatim>\<open>
  foundmap = True
  indexmap = []
  for atomlist0, atomlist1 in zip(oldpos, newpos):
      if not foundmap: break
      maplist = ...
      if len(maplist) != len(atomlist0):
          foundmap = False
      else:
          indexmap.append(maplist)
  \<close>
  The result is the pair \<open>(foundmap, indexmap)\<close>.
\<close>

fun build_indexmap :: "real \<Rightarrow> (real vec3 list \<times> real vec3 list) list \<Rightarrow> real vec3 \<Rightarrow>
    nat list list \<Rightarrow> bool \<times> nat list list" where
  "build_indexmap threshold [] trans' indexmap' = (True, indexmap')"
| "build_indexmap threshold ((atomlist0, atomlist1) # rest) trans' indexmap' =
     (let maplist = maplist_of threshold atomlist0 atomlist1 trans' in
      if length maplist \<noteq> length atomlist0 then (False, indexmap')
      else build_indexmap threshold rest trans' (indexmap' @ [maplist]))"

text \<open>
  \<^verbatim>\<open>
  for ub in oldpos[atomindex]:
      trans = inhalf(ub - ru0)
      ...
      if foundmap: break
  if foundmap: return trans, indexmap
  else:        return None, None
  \<close>
  The value \<open>None\<close> stands for the pair \<^verbatim>\<open>(None, None)\<close>.
\<close>

fun try_translations :: "real \<Rightarrow> real vec3 list \<Rightarrow> real vec3 \<Rightarrow>
    (real vec3 list \<times> real vec3 list) list \<Rightarrow> (real vec3 \<times> nat list list) option" where
  "try_translations threshold [] ru0 pairs = None"
| "try_translations threshold (ub # rest) ru0 pairs =
     (let trans' = inhalf (vsub ub ru0) in
      case build_indexmap threshold pairs trans' [] of
        (True, indexmap') \<Rightarrow> Some (trans', indexmap')
      | (False, _) \<Rightarrow> try_translations threshold rest ru0 pairs)"

text \<open>
  \<^verbatim>\<open>maptranslation(oldpos, newpos, threshold=1e-8)\<close>: the shape checks raise
  \<^verbatim>\<open>IndexError\<close>; \<^verbatim>\<open>ru0 = newpos[atomindex][0]\<close> raises \<^verbatim>\<open>IndexError\<close> when there is no such
  position.
\<close>

definition maptranslation :: "real vec3 list list \<Rightarrow> real vec3 list list \<Rightarrow> real \<Rightarrow>
    error + (real vec3 \<times> nat list list) option" where
  "maptranslation oldpos newpos threshold =
     (if length oldpos \<noteq> length newpos then Inl IndexError
      else if list_ex (\<lambda>(a, b). length a \<noteq> length b) (zip oldpos newpos) then Inl IndexError
      else (case longest_list oldpos of (maxlen, atomindex) \<Rightarrow>
        (case py_index newpos atomindex of Inl e \<Rightarrow> Inl e
         | Inr atomlist1 \<Rightarrow>
        (case py_index atomlist1 0 of Inl e \<Rightarrow> Inl e
         | Inr ru0 \<Rightarrow>
        (case py_index oldpos atomindex of Inl e \<Rightarrow> Inl e
         | Inr ubs \<Rightarrow> Inr (try_translations threshold ubs ru0 (zip oldpos newpos)))))))"

section \<open>The crystal\<close>

text \<open>
  The attributes of a \<^verbatim>\<open>Crystal\<close> that the operations below read or write. The chemistry
  labels, the volume, the reciprocal lattice, the Brillouin zone vectors, the point groups
  and the Wyckoff sets are computed from these and are read by none of them.
\<close>

record Crystal =
  lattice :: "real mat3"
  basis :: "real vec3 list list"
  invlatt :: "real mat3"
  N :: nat
  Nchem :: nat
  metric :: "real mat3"
  G :: "GroupOp list"

section \<open>Generating the space group\<close>

text \<open>
  \<^verbatim>\<open>
  supercellvect = [np.array((n0, n1, n2))
                   for n0 in range(-1, 2) for n1 in range(-1, 2) for n2 in range(-1, 2)
                   if (n0, n1, n2) != (0, 0, 0)]
  matchvect = [[u for u in supercellvect
                if np.isclose(np.dot(u, np.dot(self.metric, u)), self.metric[d, d])]
               for d in range(3)]
  \<close>
\<close>

definition supercellvect :: "int vec3 list" where
  "supercellvect = [(n0, n1, n2). n0 \<leftarrow> [- 1, 0, 1], n1 \<leftarrow> [- 1, 0, 1], n2 \<leftarrow> [- 1, 0, 1],
     (n0, n1, n2) \<noteq> (0, 0, 0)]"

definition mdiag :: "'a mat3 \<Rightarrow> 'a vec3" where
  "mdiag m = (case m of ((a, b, c), (d, e, f), (g, h, i)) \<Rightarrow> (a, e, i))"

definition matchvect :: "real mat3 \<Rightarrow> int vec3 list vec3" where
  "matchvect metric' = vmap (\<lambda>mdd. [u \<leftarrow> supercellvect.
       isclose (dot (vmap of_int u) (mat_vec metric' (vmap of_int u))) mdd])
     (mdiag metric')"

text \<open>
  \<^verbatim>\<open>
  (np.array((r0, r1, r2)).T
     for r0 in matchvect[0] for r1 in matchvect[1] for r2 in matchvect[2]
     if abs(np.inner(r0, np.cross(r1, r2))) == 1)
  \<close>
\<close>

definition candidate_supercells :: "real mat3 \<Rightarrow> int mat3 list" where
  "candidate_supercells metric' = (case matchvect metric' of (m0, m1, m2) \<Rightarrow>
     [transpose3 (r0, r1, r2). r0 \<leftarrow> m0, r1 \<leftarrow> m1, r2 \<leftarrow> m2, \<bar>dot r0 (cross r1 r2)\<bar> = 1])"

text \<open>
  \<^verbatim>\<open>
  for supercell in (...):
      if np.allclose(np.dot(supercell.T, np.dot(self.metric, supercell)), self.metric):
          trans, indexmap = maptranslation(self.basis,
                                           [[np.dot(supercell, u) for u in atomlist]
                                            for atomlist in self.basis])
          if indexmap is not None:
              groupops.append(GroupOp(supercell, trans,
                                      np.dot(self.lattice, np.dot(supercell, self.invlatt)),
                                      indexmap))
  return frozenset(groupops)
  \<close>
  Every appended operation has a rotation of its own, so no two of them are equal and the
  frozenset holds exactly the operations of the list; the group is kept as that list.
\<close>

fun gengroup_loop :: "Crystal \<Rightarrow> int mat3 list \<Rightarrow> GroupOp list \<Rightarrow> error + GroupOp list" where
  "gengroup_loop self [] groupops = Inr groupops"
| "gengroup_loop self (supercell # rest) groupops =
     (let s = mmap of_int supercell in
      if allclose_mat (mat_mul (transpose3 s) (mat_mul (metric self) s)) (metric self) then
        (case maptranslation (basis self) (map (map (mat_vec s)) (basis self)) (1 / 10 ^ 8) of
           Inl e \<Rightarrow> Inl e
         | Inr None \<Rightarrow> gengroup_loop self rest groupops
         | Inr (Some (trans', indexmap')) \<Rightarrow>
             gengroup_loop self rest (groupops @
               [\<lparr>rot = supercell, trans = trans',
                 cartrot = mat_mul (lattice self) (mat_mul s (invlatt self)),
                 indexmap = indexmap'\<rparr>]))
      else gengroup_loop self rest groupops)"

definition gengroup :: "Crystal \<Rightarrow> error + GroupOp list" where
  "gengroup self = gengroup_loop self (candidate_supercells (metric self)) []"

section \<open>Lattice and basis normalization\<close>

text \<open>
  \<^verbatim>\<open>
  def remapbasis(self, supercell):
      invsuper = np.linalg.inv(supercell)
      return [[incell(np.dot(invsuper, u)) for u in atomlist] for atomlist in self.basis]
  \<close>
\<close>

definition remapbasis :: "Crystal \<Rightarrow> real mat3 \<Rightarrow> error + real vec3 list list" where
  "remapbasis self supercell =
     (case linalg_inv supercell of Inl e \<Rightarrow> Inl e
      | Inr invsuper \<Rightarrow> Inr (map (map (\<lambda>u. incell (mat_vec invsuper u))) (basis self)))"

text \<open>
  The two statements \<^verbatim>\<open>self.lattice = np.dot(self.lattice, super)\<close> and
  \<^verbatim>\<open>self.basis = self.remapbasis(super)\<close>, which \<^verbatim>\<open>minlattice\<close> runs twice.
\<close>

definition apply_supercell :: "Crystal \<Rightarrow> int mat3 \<Rightarrow> error + Crystal" where
  "apply_supercell self super =
     (case remapbasis self (mmap of_int super) of Inl e \<Rightarrow> Inl e
      | Inr newbasis \<Rightarrow>
          Inr (self\<lparr>lattice := mat_mul (lattice self) (mmap of_int super), basis := newbasis\<rparr>))"

text \<open>
  First half of \<^verbatim>\<open>minlattice\<close>: order the lattice vectors by squared length and make the
  lattice right-handed.
  \<^verbatim>\<open>
  magnlist = sorted((np.dot(v, v), idx) for idx, v in enumerate(self.lattice.T))
  super = np.zeros((3, 3), dtype=int)
  for i, (magn, j) in enumerate(magnlist):
      super[j, i] = 1
  if np.linalg.det(self.lattice) * np.linalg.det(super) < 0:
      super[:, 2] = -super[:, 2]
  if not np.all(super == np.eye(3, dtype=int)):
      self.lattice = np.dot(self.lattice, super)
      self.basis = self.remapbasis(super)
  \<close>
\<close>

definition magnlist :: "real mat3 \<Rightarrow> (real \<times> nat) list" where
  "magnlist latt = (case transpose3 latt of (v0, v1, v2) \<Rightarrow>
     sort [(dot v0 v0, 0), (dot v1 v1, 1), (dot v2 v2, 2)])"

definition unit_vec :: "nat \<Rightarrow> int vec3" where
  "unit_vec j = (if j = 0 then (1, 0, 0) else if j = 1 then (0, 1, 0) else (0, 0, 1))"

definition perm_super :: "(real \<times> nat) list \<Rightarrow> int mat3" where
  "perm_super ml = transpose3 (unit_vec (snd (ml ! 0)), unit_vec (snd (ml ! 1)),
     unit_vec (snd (ml ! 2)))"

definition negate_col2 :: "int mat3 \<Rightarrow> int mat3" where
  "negate_col2 m = (case m of ((a, b, c), (d, e, f), (g, h, i)) \<Rightarrow>
     ((a, b, - c), (d, e, - f), (g, h, - i)))"

definition sort_super :: "real mat3 \<Rightarrow> int mat3" where
  "sort_super latt = (let super = perm_super (magnlist latt) in
     if det3 latt * of_int (det3 super) < 0 then negate_col2 super else super)"

definition minlattice_sort :: "Crystal \<Rightarrow> error + Crystal" where
  "minlattice_sort self = (let super = sort_super (lattice self) in
     if super \<noteq> eye3 then apply_supercell self super else Inr self)"

text \<open>
  Second half: one pairwise reduction, if there is one.
  \<^verbatim>\<open>
  super = np.eye(3, dtype=int)
  modified = False
  asq = np.dot(self.lattice.T, self.lattice)
  u = np.around([asq[0, 1] / asq[0, 0], asq[0, 2] / asq[0, 0], asq[1, 2] / asq[1, 1]])
  if u[0] != 0:
      super[0, 1] = -int(u[0]);  modified = True
  elif u[1] != 0:
      super[0, 2] = -int(u[1]);  modified = True
  elif u[2] != 0:
      super[1, 2] = -int(u[2]);  modified = True
  \<close>
  A zero diagonal entry of \<open>asq\<close> belongs to a zero lattice vector; the quotient is then
  \<^verbatim>\<open>nan\<close>, which differs from 0, and \<^verbatim>\<open>int(nan)\<close> raises \<^verbatim>\<open>ValueError\<close>. The result
  \<open>None\<close> stands for \<^verbatim>\<open>modified == False\<close>.
\<close>

definition minlattice_reduction :: "real mat3 \<Rightarrow> error + int mat3 option" where
  "minlattice_reduction latt =
     (case mat_mul (transpose3 latt) latt of ((a00, a01, a02), (a10, a11, a12), r2) \<Rightarrow>
        if a00 = 0 then Inl ValueError
        else if np_round (a01 / a00) \<noteq> 0
          then Inr (Some ((1, - np_round (a01 / a00), 0), (0, 1, 0), (0, 0, 1)))
        else if np_round (a02 / a00) \<noteq> 0
          then Inr (Some ((1, 0, - np_round (a02 / a00)), (0, 1, 0), (0, 0, 1)))
        else if a11 = 0 then Inl ValueError
        else if np_round (a12 / a11) \<noteq> 0
          then Inr (Some ((1, 0, 0), (0, 1, - np_round (a12 / a11)), (0, 0, 1)))
        else Inr None)"

text \<open>
  \<^verbatim>\<open>
  if not modified:
      return
  self.lattice = np.dot(self.lattice, super)
  self.basis = self.remapbasis(super)
  self.minlattice()
  \<close>
  The method calls itself until nothing is modified; a run that never ends has the value
  \<open>None\<close>.
\<close>

partial_function (option) minlattice :: "Crystal \<Rightarrow> (error + Crystal) option" where
  "minlattice self =
     (case minlattice_sort self of Inl e \<Rightarrow> Some (Inl e)
      | Inr self1 \<Rightarrow>
     (case minlattice_reduction (lattice self1) of Inl e \<Rightarrow> Some (Inl e)
      | Inr None \<Rightarrow> Some (Inr self1)
      | Inr (Some super) \<Rightarrow>
     (case apply_supercell self1 super of Inl e \<Rightarrow> Some (Inl e)
      | Inr self2 \<Rightarrow> minlattice self2)))"

text \<open>
  \<^verbatim>\<open>Crystal.reduce(threshold=1e-8)\<close>. The scan for a translation:
  \<^verbatim>\<open>
  initpos = self.basis[atomindex][0]
  for newpos in self.basis[atomindex]:
      t = newpos - initpos
      if np.all(t == 0): continue
      trans = True
      for atomlist in self.basis:
          for u in atomlist:
              if np.all([not np.all(abs(inhalf(u + t - v))<threshold) for v in atomlist]):
                  trans = False
                  break
      if trans:
          break
  if not trans:
      return
  \<close>
  The flag \<^verbatim>\<open>trans\<close> is unassigned until a nonzero \<open>t\<close> is met; reading it then raises
  \<^verbatim>\<open>UnboundLocalError\<close>. The result \<open>Some t\<close> is the \<^verbatim>\<open>break\<close> with \<^verbatim>\<open>trans == True\<close>.
\<close>

definition is_translation :: "real vec3 list list \<Rightarrow> real \<Rightarrow> real vec3 \<Rightarrow> bool" where
  "is_translation bas threshold t = list_all (\<lambda>atomlist.
     list_all (\<lambda>u. list_ex (\<lambda>v. vall (\<lambda>x. \<bar>x\<bar> < threshold) (inhalf (vsub (vadd u t) v))) atomlist)
       atomlist) bas"

fun reduce_scan :: "real vec3 list list \<Rightarrow> real \<Rightarrow> real vec3 \<Rightarrow> real vec3 list \<Rightarrow> bool \<Rightarrow>
    error + real vec3 option" where
  "reduce_scan bas threshold initpos [] assigned =
     (if assigned then Inr None else Inl UnboundLocalError)"
| "reduce_scan bas threshold initpos (newpos # rest) assigned =
     (let t = vsub newpos initpos in
      if t = zero3 then reduce_scan bas threshold initpos rest assigned
      else if is_translation bas threshold t then Inr (Some t)
      else reduce_scan bas threshold initpos rest True)"

text \<open>
  \<^verbatim>\<open>
  for d in range(3):
      supercell = np.eye(3)
      supercell[:, d] = t[:]
      if not np.isclose(np.linalg.det(supercell), 0):
          break
  \<close>
\<close>

definition set_col :: "nat \<Rightarrow> real vec3 \<Rightarrow> real mat3" where
  "set_col d t = (case t of (x, y, z) \<Rightarrow>
     if d = 0 then ((x, 0, 0), (y, 1, 0), (z, 0, 1))
     else if d = 1 then ((1, x, 0), (0, y, 0), (0, z, 1))
     else ((1, 0, x), (0, 1, y), (0, 0, z)))"

definition reduce_supercell :: "real vec3 \<Rightarrow> real mat3" where
  "reduce_supercell t =
     (if \<not> isclose (det3 (set_col 0 t)) 0 then set_col 0 t
      else if \<not> isclose (det3 (set_col 1 t)) 0 then set_col 1 t
      else set_col 2 t)"

text \<open>
  \<^verbatim>\<open>
  newatomlist = []
  for u in atomlist:
      v = incell(np.dot(invsuper, u))
      if np.all([not np.allclose(v, v1) for v1 in newatomlist]):
          newatomlist.append(v)
  \<close>
\<close>

definition dedup_atoms :: "real mat3 \<Rightarrow> real vec3 list \<Rightarrow> real vec3 list" where
  "dedup_atoms invsuper atomlist = foldl (\<lambda>newatomlist u.
       (let v = incell (mat_vec invsuper u) in
        if list_all (\<lambda>v1. \<not> allclose v v1) newatomlist then newatomlist @ [v]
        else newatomlist)) [] atomlist"

partial_function (option) reduce :: "Crystal \<Rightarrow> real \<Rightarrow> (error + Crystal) option" where
  "reduce self threshold =
     (case longest_list (basis self) of (maxlen, atomindex) \<Rightarrow>
      if maxlen = 1 then Some (Inr self)
      else (case py_index (basis self) atomindex of Inl e \<Rightarrow> Some (Inl e)
        | Inr ulist \<Rightarrow>
      (case py_index ulist 0 of Inl e \<Rightarrow> Some (Inl e)
        | Inr initpos \<Rightarrow>
      (case reduce_scan (basis self) threshold initpos ulist False of Inl e \<Rightarrow> Some (Inl e)
        | Inr None \<Rightarrow> Some (Inr self)
        | Inr (Some t) \<Rightarrow>
      (case linalg_inv (reduce_supercell t) of Inl e \<Rightarrow> Some (Inl e)
        | Inr invsuper \<Rightarrow>
          reduce (self\<lparr>lattice := mat_mul (lattice self) (reduce_supercell t),
                       basis := map (dedup_atoms invsuper) (basis self)\<rparr>) (1 / 10 ^ 8))))))"

text \<open>
  \<^verbatim>\<open>
  def center(self):
      if self.N == 1:
          self.basis = [[np.array([0., 0., 0.])]]
          return
      trans, indexmap = maptranslation(self.basis, [[-u for u in atomlist] for atomlist in self.basis])
      if indexmap is None:
          return
      self.basis = [[incell(u - 0.5 * trans) for u in atomlist] for atomlist in self.basis]
      shift = np.zeros(3)
      for d in range(3):
          if np.any([np.isclose(u[d], 0) for atomlist in self.basis for u in atomlist]):
              shift[d] = 0
          elif np.any([np.isclose(u[d], 0.5) for atomlist in self.basis for u in atomlist]):
              shift[d] = 0.5
          elif sum([1 for atomlist in self.basis for u in atomlist if u[d] < 0.25 or u[d] > 0.75]) > self.N / 2:
              shift[d] = 0.5
      self.basis = [[incell(atom + shift) for atom in atomlist] for atomlist in self.basis]
  \<close>
\<close>

definition shift_component :: "nat \<Rightarrow> real list \<Rightarrow> real" where
  "shift_component n ud =
     (if list_ex (\<lambda>x. isclose x 0) ud then 0
      else if list_ex (\<lambda>x. isclose x (1 / 2)) ud then 1 / 2
      else if real (length [x \<leftarrow> ud. x < 1 / 4 \<or> x > 3 / 4]) > real n / 2 then 1 / 2
      else 0)"

definition center_shift :: "nat \<Rightarrow> real vec3 list list \<Rightarrow> real vec3" where
  "center_shift n bas = (let us = concat bas in
     (shift_component n (map fst us), shift_component n (map (\<lambda>u. fst (snd u)) us),
      shift_component n (map (\<lambda>u. snd (snd u)) us)))"

definition center :: "Crystal \<Rightarrow> error + Crystal" where
  "center self =
     (if N self = 1 then Inr (self\<lparr>basis := [[(0, 0, 0)]]\<rparr>)
      else (case maptranslation (basis self) (map (map vneg) (basis self)) (1 / 10 ^ 8) of
          Inl e \<Rightarrow> Inl e
        | Inr None \<Rightarrow> Inr self
        | Inr (Some (trans', indexmap')) \<Rightarrow>
            (let bas1 = map (map (\<lambda>u. incell (vsub u (smul (1 / 2) trans')))) (basis self);
                 shift = center_shift (N self) bas1
             in Inr (self\<lparr>basis := map (map (\<lambda>atom. incell (vadd atom shift))) bas1\<rparr>))))"

section \<open>Construction\<close>

text \<open>
  \<^verbatim>\<open>Crystal.__init__(lattice, basis, chemistry=None, NOSYM=False, noreduce=False)\<close> for a
  lattice given as a 3x3 array (vectors in columns) and a basis given as a list of lists of
  positions; \<^verbatim>\<open>basis[0]\<close> raises \<^verbatim>\<open>IndexError\<close> on the empty list.
  \<^verbatim>\<open>
  self.basis = [[incell(u) for u in atombasis] for atombasis in basis]
  if not noreduce: self.reduce()
  self.minlattice()
  self.invlatt = np.linalg.inv(self.lattice)
  self.atomindices = [(atomtype, atomindex)
                      for atomtype,atomlist in enumerate(self.basis)
                      for atomindex in range(len(atomlist))]
  self.N = len(self.atomindices)
  self.Nchem = len(self.basis)
  ...
  self.volume, self.metric = self.calcmetric()
  ...
  self.center()
  if NOSYM: self.G = frozenset([GroupOp.ident(self.basis)])
  else: self.G = self.gengroup()
  \<close>
  An attribute that is not yet assigned holds a zero; none is read before its assignment.
\<close>

definition calcmetric :: "Crystal \<Rightarrow> real \<times> real mat3" where
  "calcmetric self = (\<bar>det3 (lattice self)\<bar>, mat_mul (transpose3 (lattice self)) (lattice self))"

definition init_fields :: "Crystal \<Rightarrow> error + Crystal" where
  "init_fields self =
     (case linalg_inv (lattice self) of Inl e \<Rightarrow> Inl e
      | Inr il \<Rightarrow> (let self1 = self\<lparr>invlatt := il, N := length (concat (basis self)),
                         Nchem := length (basis self)\<rparr>
                    in Inr (self1\<lparr>metric := snd (calcmetric self1)\<rparr>)))"

definition init_group :: "bool \<Rightarrow> Crystal \<Rightarrow> error + Crystal" where
  "init_group NOSYM self =
     (if NOSYM then Inr (self\<lparr>G := [ident (basis self)]\<rparr>)
      else (case gengroup self of Inl e \<Rightarrow> Inl e | Inr groupops \<Rightarrow> Inr (self\<lparr>G := groupops\<rparr>)))"

definition Crystal_init :: "real mat3 \<Rightarrow> real vec3 list list \<Rightarrow> bool \<Rightarrow> bool \<Rightarrow>
    (error + Crystal) option" where
  "Crystal_init latt bas NOSYM noreduce =
     (if bas = [] then Some (Inl IndexError)
      else (let self0 = \<lparr>lattice = latt, basis = map (map incell) bas, invlatt = (zero3, zero3, zero3),
                         N = 0, Nchem = 0, metric = (zero3, zero3, zero3), G = []\<rparr>
        in case (if noreduce then Some (Inr self0) else reduce self0 (1 / 10 ^ 8)) of
             None \<Rightarrow> None
           | Some (Inl e) \<Rightarrow> Some (Inl e)
           | Some (Inr self1) \<Rightarrow>
        (case minlattice self1 of
             None \<Rightarrow> None
           | Some (Inl e) \<Rightarrow> Some (Inl e)
           | Some (Inr self2) \<Rightarrow>
        (case init_fields self2 of Inl e \<Rightarrow> Some (Inl e)
           | Inr self3 \<Rightarrow>
        (case center self3 of Inl e \<Rightarrow> Some (Inl e)
           | Inr self4 \<Rightarrow> Some (init_group NOSYM self4))))))"

section \<open>Positions and the action of a group operation\<close>

text \<open>
  \<^verbatim>\<open>
  def pos2cart(self, lattvec, ind):
      return np.dot(self.lattice, lattvec + self.basis[ind[0]][ind[1]])
  def unit2cart(self, lattvec, uvec):
      return np.dot(self.lattice, lattvec + uvec)
  \<close>
\<close>

definition site :: "Crystal \<Rightarrow> nat \<times> nat \<Rightarrow> error + real vec3" where
  "site self ind = (case py_index (basis self) (fst ind) of Inl e \<Rightarrow> Inl e
     | Inr atomlist \<Rightarrow> py_index atomlist (snd ind))"

definition unit2cart :: "Crystal \<Rightarrow> int vec3 \<Rightarrow> real vec3 \<Rightarrow> real vec3" where
  "unit2cart self lattvec uvec = mat_vec (lattice self) (vadd (vmap of_int lattvec) uvec)"

definition pos2cart :: "Crystal \<Rightarrow> int vec3 \<Rightarrow> nat \<times> nat \<Rightarrow> error + real vec3" where
  "pos2cart self lattvec ind = (case site self ind of Inl e \<Rightarrow> Inl e
     | Inr u \<Rightarrow> Inr (mat_vec (lattice self) (vadd (vmap of_int lattvec) u)))"

text \<open>
  \<^verbatim>\<open>
  def g_pos(self, g, lattvec, ind):
      rotlatt = np.dot(g.rot, lattvec)
      rotind = (ind[0], g.indexmap[ind[0]][ind[1]])
      delu = (np.round(np.dot(g.rot, self.basis[ind[0]][ind[1]]) + g.trans -
                       self.basis[rotind[0]][rotind[1]])).astype(int)
      return rotlatt + delu, rotind
  \<close>
\<close>

definition g_pos :: "Crystal \<Rightarrow> GroupOp \<Rightarrow> int vec3 \<Rightarrow> nat \<times> nat \<Rightarrow>
    error + (int vec3 \<times> (nat \<times> nat))" where
  "g_pos self g lattvec ind =
     (case py_index (indexmap g) (fst ind) of Inl e \<Rightarrow> Inl e
      | Inr maplist \<Rightarrow>
     (case py_index maplist (snd ind) of Inl e \<Rightarrow> Inl e
      | Inr k \<Rightarrow>
     (case site self ind of Inl e \<Rightarrow> Inl e
      | Inr u \<Rightarrow>
     (case site self (fst ind, k) of Inl e \<Rightarrow> Inl e
      | Inr u' \<Rightarrow>
         Inr (vadd (mat_vec (rot g) lattvec)
                (vmap np_round (vsub (vadd (mat_vec (mmap of_int (rot g)) u) (trans g)) u')),
              (fst ind, k))))))"

section \<open>Neighbour vectors\<close>

text \<open>
  \<^verbatim>\<open>
  r2 = cutoff*cutoff
  nmax = [int(np.round(np.sqrt(self.metric[i,i])))+1 for i in range(3)]
  supervect = [ np.array([n0, n1, n2])
                for n0 in range(-nmax[0],nmax[0]+1)
                for n1 in range(-nmax[1],nmax[1]+1)
                for n2 in range(-nmax[2],nmax[2]+1) ]
  \<close>
  The square root of a negative number is \<^verbatim>\<open>nan\<close>, and \<^verbatim>\<open>int(nan)\<close> raises
  \<^verbatim>\<open>ValueError\<close>.
\<close>

definition nmax :: "Crystal \<Rightarrow> error + int vec3" where
  "nmax self = (case mdiag (metric self) of (m0, m1, m2) \<Rightarrow>
     if m0 < 0 \<or> m1 < 0 \<or> m2 < 0 then Inl ValueError
     else Inr (np_round (sqrt m0) + 1, np_round (sqrt m1) + 1, np_round (sqrt m2) + 1))"

definition supervect :: "int vec3 \<Rightarrow> int vec3 list" where
  "supervect nm = (case nm of (k0, k1, k2) \<Rightarrow>
     [(n0, n1, n2). n0 \<leftarrow> [- k0..k0], n1 \<leftarrow> [- k1..k1], n2 \<leftarrow> [- k2..k2]])"

text \<open>
  \<^verbatim>\<open>
  def nnlist(self, ind, cutoff):
      ...
      lis = []
      u0 = self.basis[ind[0]][ind[1]]
      for u1 in self.basis[ind[0]]:
          du = u1-u0
          for n in supervect:
              dx = self.unit2cart(n, du)
              if np.dot(dx, dx) > 0 and np.dot(dx,dx) < r2:
                  lis.append(dx)
      return lis
  \<close>
\<close>

definition nnlist :: "Crystal \<Rightarrow> nat \<times> nat \<Rightarrow> real \<Rightarrow> error + real vec3 list" where
  "nnlist self ind cutoff =
     (case nmax self of Inl e \<Rightarrow> Inl e
      | Inr nm \<Rightarrow>
     (case site self ind of Inl e \<Rightarrow> Inl e
      | Inr u0 \<Rightarrow>
     (case py_index (basis self) (fst ind) of Inl e \<Rightarrow> Inl e
      | Inr atomlist \<Rightarrow>
         Inr [dx. u1 \<leftarrow> atomlist, n \<leftarrow> supervect nm,
                  dx \<leftarrow> [unit2cart self n (vsub u1 u0)],
                  dot dx dx > 0 \<and> dot dx dx < cutoff * cutoff])))"

section \<open>The jump network\<close>

type_synonym transition = "(nat \<times> nat) \<times> real vec3"

text \<open>A loop whose body may raise stops at the first error.\<close>

fun foldM :: "('a \<Rightarrow> 's \<Rightarrow> error + 's) \<Rightarrow> 'a list \<Rightarrow> 's \<Rightarrow> error + 's" where
  "foldM f [] s = Inr s"
| "foldM f (x # xs) s = (case f x s of Inl e \<Rightarrow> Inl e | Inr s' \<Rightarrow> foldM f xs s')"

text \<open>
  \<^verbatim>\<open>
  def inlist(tup, dx, lis):
      return any( tup == ij and np.allclose(dx, v) for translist in lis for ij, v in translist )
  \<close>
\<close>

definition inlist :: "nat \<times> nat \<Rightarrow> real vec3 \<Rightarrow> transition list list \<Rightarrow> bool" where
  "inlist tup dx lis = list_ex (\<lambda>translist. list_ex (\<lambda>(ij, v). tup = ij \<and> allclose dx v) translist) lis"

text \<open>
  The image of the transition from site \<open>i\<close> in cell 0 to site \<open>j\<close> in cell \<open>n\<close> under \<open>g\<close>:
  \<^verbatim>\<open>
  R1, ind1 = self.g_pos(g, center, (chem, i))
  R2, ind2 = self.g_pos(g, n, (chem, j))
  tup = (ind1[1], ind2[1])
  dx = self.pos2cart(R2,ind2) - self.pos2cart(R1,ind1)
  \<close>
\<close>

definition g_jump :: "Crystal \<Rightarrow> nat \<Rightarrow> nat \<Rightarrow> nat \<Rightarrow> int vec3 \<Rightarrow> GroupOp \<Rightarrow> error + transition" where
  "g_jump self chem i j n g =
     (case g_pos self g zero3 (chem, i) of Inl e \<Rightarrow> Inl e
      | Inr (R1, ind1) \<Rightarrow>
     (case g_pos self g n (chem, j) of Inl e \<Rightarrow> Inl e
      | Inr (R2, ind2) \<Rightarrow>
     (case pos2cart self R2 ind2 of Inl e \<Rightarrow> Inl e
      | Inr x2 \<Rightarrow>
     (case pos2cart self R1 ind1 of Inl e \<Rightarrow> Inl e
      | Inr x1 \<Rightarrow> Inr ((snd ind1, snd ind2), vsub x2 x1)))))"

text \<open>
  \<^verbatim>\<open>
  trans = []
  for g in self.G:
      ...
      if not any( tup == ij and np.allclose(dx, v) for ij, v in trans):
          trans.append((tup, dx))
          trans.append(((tup[1], tup[0]), -dx))
  lis.append(trans)
  \<close>
\<close>

definition orbit_step :: "Crystal \<Rightarrow> nat \<Rightarrow> nat \<Rightarrow> nat \<Rightarrow> int vec3 \<Rightarrow> GroupOp \<Rightarrow>
    transition list \<Rightarrow> error + transition list" where
  "orbit_step self chem i j n g trans' =
     (case g_jump self chem i j n g of Inl e \<Rightarrow> Inl e
      | Inr (tup, dx) \<Rightarrow>
          if \<not> list_ex (\<lambda>(ij, v). tup = ij \<and> allclose dx v) trans'
          then Inr (trans' @ [(tup, dx), ((snd tup, fst tup), vneg dx)])
          else Inr trans')"

definition orbit :: "Crystal \<Rightarrow> nat \<Rightarrow> nat \<Rightarrow> nat \<Rightarrow> int vec3 \<Rightarrow> error + transition list" where
  "orbit self chem i j n = foldM (orbit_step self chem i j n) (G self) []"

text \<open>
  \<^verbatim>\<open>
  for i, u0 in enumerate(self.basis[chem]):
      for j, u1 in enumerate(self.basis[chem]):
          du = u1-u0
          for n in supervect:
              dx = self.unit2cart(n, du)
              if np.dot(dx, dx) > 0 and np.dot(dx,dx) < r2:
                  if not inlist((i,j), dx, lis):
                      ...
                      lis.append(trans)
  \<close>
\<close>

definition jump_step :: "Crystal \<Rightarrow> nat \<Rightarrow> real \<Rightarrow> (nat \<times> real vec3) \<times> (nat \<times> real vec3) \<times> int vec3 \<Rightarrow>
    transition list list \<Rightarrow> error + transition list list" where
  "jump_step self chem r2 x lis = (case x of ((i, u0), (j, u1), n) \<Rightarrow>
     (let dx = unit2cart self n (vsub u1 u0) in
      if dot dx dx > 0 \<and> dot dx dx < r2 then
        if \<not> inlist (i, j) dx lis then
          (case orbit self chem i j n of Inl e \<Rightarrow> Inl e
           | Inr trans' \<Rightarrow> Inr (lis @ [trans']))
        else Inr lis
      else Inr lis))"

definition jump_classes :: "Crystal \<Rightarrow> nat \<Rightarrow> real \<Rightarrow> int vec3 list \<Rightarrow> error + transition list list" where
  "jump_classes self chem r2 sv =
     (case py_index (basis self) chem of Inl e \<Rightarrow> Inl e
      | Inr atomlist \<Rightarrow>
          foldM (jump_step self chem r2)
            [(iu0, ju1, n). iu0 \<leftarrow> enumerate 0 atomlist, ju1 \<leftarrow> enumerate 0 atomlist, n \<leftarrow> sv] [])"

text \<open>
  The collision thresholds. \<^verbatim>\<open>closestdistance\<close> is a number or a list of numbers:
  \<^verbatim>\<open>
  if type(closestdistance) is list:
      closest2list = [ x**2 if c != chem else -1. for c,x in enumerate(closestdistance)]
  else:
      closest2list = [ closestdistance**2 if c != chem else -1. for c in range(self.Nchem)]
  \<close>
\<close>

datatype closest = Scalar real | PerSpecies "real list"

definition closest2list :: "Crystal \<Rightarrow> nat \<Rightarrow> closest \<Rightarrow> real list" where
  "closest2list self chem closestdistance = (case closestdistance of
       PerSpecies xs \<Rightarrow> map (\<lambda>(c, x). if c \<noteq> chem then x * x else - 1) (enumerate 0 xs)
     | Scalar x \<Rightarrow> map (\<lambda>c. if c \<noteq> chem then x * x else - 1) [0..<Nchem self])"

text \<open>
  The test on the representative \<^verbatim>\<open>t = trans[0]\<close> of a class against the atom \<open>u0\<close> in
  cell \<open>n\<close>:
  \<^verbatim>\<open>
  dx = t[1]
  xRa = self.unit2cart(n, u0-self.basis[chem][t[0][0]])
  xRa2 = np.dot(xRa, xRa)
  xRa_dx = np.dot(xRa, dx)
  dx2 = np.dot(dx, dx)
  if 0 <= xRa_dx <= dx2:
      d2 = (xRa2*dx2 - xRa_dx*xRa_dx)/dx2
      if np.isclose(d2, mindist2) or d2 < mindist2:
          lis.remove(trans)
  \<close>
  With \<open>dx2 = 0\<close> the quotient is \<^verbatim>\<open>nan\<close>, which is neither close to nor below the
  threshold.
\<close>

definition collides :: "Crystal \<Rightarrow> nat \<Rightarrow> real \<Rightarrow> real vec3 \<Rightarrow> int vec3 \<Rightarrow> transition \<Rightarrow> error + bool" where
  "collides self chem mindist2 u0 n t =
     (case site self (chem, fst (fst t)) of Inl e \<Rightarrow> Inl e
      | Inr ui \<Rightarrow>
         (let dx = snd t;
              xRa = unit2cart self n (vsub u0 ui);
              xRa2 = dot xRa xRa;
              xRa_dx = dot xRa dx;
              dx2 = dot dx dx
          in Inr (0 \<le> xRa_dx \<and> xRa_dx \<le> dx2 \<and> dx2 \<noteq> 0 \<and>
               (isclose ((xRa2 * dx2 - xRa_dx * xRa_dx) / dx2) mindist2 \<or>
                (xRa2 * dx2 - xRa_dx * xRa_dx) / dx2 < mindist2))))"

text \<open>
  One pass \<^verbatim>\<open>for trans in list(lis): ... lis.remove(trans)\<close>. The classes visited and kept so
  far are the part of \<open>lis\<close> before \<open>trans\<close>. \<^verbatim>\<open>trans[0]\<close> raises \<^verbatim>\<open>IndexError\<close> on an empty
  class. \<^verbatim>\<open>lis.remove(trans)\<close> compares \<open>trans\<close> with every class before it: two lists of
  different lengths are unequal, items with different index pairs are unequal, and
  comparing two displacement arrays raises \<^verbatim>\<open>ValueError\<close> (the truth value of an array
  with more than one element).
\<close>

fun filter_pass :: "(transition \<Rightarrow> error + bool) \<Rightarrow> transition list list \<Rightarrow> transition list list \<Rightarrow>
    error + transition list list" where
  "filter_pass hit kept [] = Inr kept"
| "filter_pass hit kept ([] # rest) = Inl IndexError"
| "filter_pass hit kept ((t # ts) # rest) =
     (case hit t of Inl e \<Rightarrow> Inl e
      | Inr True \<Rightarrow>
          if list_ex (\<lambda>e. length e = length (t # ts) \<and> fst (hd e) = fst t) kept
          then Inl ValueError
          else filter_pass hit kept rest
      | Inr False \<Rightarrow> filter_pass hit (kept @ [t # ts]) rest)"

text \<open>
  \<^verbatim>\<open>
  for c, mindist2 in enumerate(closest2list):
      if mindist2 < 0:
          continue
      for u0 in self.basis[c]:
          for n in supervect:
              for trans in list(lis):
                  ...
  \<close>
\<close>

definition filter_species :: "Crystal \<Rightarrow> nat \<Rightarrow> int vec3 list \<Rightarrow> nat \<times> real \<Rightarrow>
    transition list list \<Rightarrow> error + transition list list" where
  "filter_species self chem sv x lis = (case x of (c, mindist2) \<Rightarrow>
     if mindist2 < 0 then Inr lis
     else (case py_index (basis self) c of Inl e \<Rightarrow> Inl e
       | Inr atomlist \<Rightarrow>
           foldM (\<lambda>(u0, n) lis'. filter_pass (collides self chem mindist2 u0 n) [] lis')
             [(u0, n). u0 \<leftarrow> atomlist, n \<leftarrow> sv] lis))"

definition collision_filter :: "Crystal \<Rightarrow> nat \<Rightarrow> int vec3 list \<Rightarrow> real list \<Rightarrow>
    transition list list \<Rightarrow> error + transition list list" where
  "collision_filter self chem sv c2l lis = foldM (filter_species self chem sv) (enumerate 0 c2l) lis"

text \<open>
  \<^verbatim>\<open>lis.sort(key=lambda entry: min( i+j + 1e-3*np.dot(dx,dx) for (i,j), dx in entry))\<close>:
  \<^verbatim>\<open>min\<close> of an empty class raises \<^verbatim>\<open>ValueError\<close>; the sort is stable.
\<close>

definition entry_key :: "transition list \<Rightarrow> real" where
  "entry_key entry = (case map (\<lambda>((i, j), dx). real i + real j + (1 / 10 ^ 3) * dot dx dx) entry of
       [] \<Rightarrow> 0 | k # ks \<Rightarrow> foldl min k ks)"

definition sort_classes :: "transition list list \<Rightarrow> error + transition list list" where
  "sort_classes lis = (if list_ex (\<lambda>entry. entry = []) lis then Inl ValueError
     else Inr (sort_key entry_key lis))"

text \<open>\<^verbatim>\<open>Crystal.jumpnetwork(chem, cutoff, closestdistance=0)\<close>.\<close>

definition jumpnetwork :: "Crystal \<Rightarrow> nat \<Rightarrow> real \<Rightarrow> closest \<Rightarrow> error + transition list list" where
  "jumpnetwork self chem cutoff closestdistance =
     (case nmax self of Inl e \<Rightarrow> Inl e
      | Inr nm \<Rightarrow>
     (case jump_classes self chem (cutoff * cutoff) (supervect nm) of Inl e \<Rightarrow> Inl e
      | Inr lis \<Rightarrow>
     (case collision_filter self chem (supervect nm) (closest2list self chem closestdistance) lis of
        Inl e \<Rightarrow> Inl e
      | Inr lis' \<Rightarrow> sort_classes lis')))"

text \<open>
  The lattice vector of a transition, as \<^verbatim>\<open>jumpnetwork2lattice\<close> computes it:
  \<^verbatim>\<open>np.round(np.dot(self.invlatt, dx)+self.basis[chem][i]-self.basis[chem][j]).astype(int)\<close>.
\<close>

definition jump_lattvec :: "Crystal \<Rightarrow> nat \<Rightarrow> transition \<Rightarrow> error + int vec3" where
  "jump_lattvec self chem t = (case t of ((i, j), dx) \<Rightarrow>
     (case site self (chem, i) of Inl e \<Rightarrow> Inl e
      | Inr ui \<Rightarrow>
     (case site self (chem, j) of Inl e \<Rightarrow> Inl e
      | Inr uj \<Rightarrow> Inr (vmap np_round (vsub (vadd (mat_vec (invlatt self) dx) ui) uj)))))"

section \<open>Predicates used in the statements\<close>

text \<open>
  An operation is accepted from a list of candidate rotations when its rotation is one of
  them, \<^verbatim>\<open>maptranslation\<close> returned its translation and index map for the rotated basis, and
  its Cartesian rotation is \<^verbatim>\<open>lattice . rot . invlatt\<close>.
\<close>

definition accepted :: "Crystal \<Rightarrow> int mat3 list \<Rightarrow> GroupOp \<Rightarrow> bool" where
  "accepted self cands g = (rot g \<in> set cands \<and>
     maptranslation (basis self) (map (map (mat_vec (mmap of_int (rot g)))) (basis self)) (1 / 10 ^ 8)
       = Inr (Some (trans g, indexmap g)) \<and>
     cartrot g = mat_mul (lattice self) (mat_mul (mmap of_int (rot g)) (invlatt self)))"


text \<open>
  A crystal is minimized when neither half of \<^verbatim>\<open>minlattice\<close> changes it: its lattice vectors
  are sorted by squared length and right-handed, and no pairwise reduction applies.
\<close>

definition minimized :: "Crystal \<Rightarrow> bool" where
  "minimized self = (minlattice_sort self = Inr self \<and> minlattice_reduction (lattice self) = Inr None)"


text \<open>
  The positions of one species are distinct modulo the cell when no earlier position passes
  the closeness test of \<^verbatim>\<open>maptranslation\<close> against a later one (with zero translation).
\<close>

fun distinct_mod_cell :: "real \<Rightarrow> real vec3 list \<Rightarrow> bool" where
  "distinct_mod_cell threshold [] = True"
| "distinct_mod_cell threshold (u # us) =
     (list_all (\<lambda>v. \<not> close_mod_cell threshold u v zero3) us \<and> distinct_mod_cell threshold us)"

text \<open>
  A class is closed under reversal when it holds \<open>((j, i), -dx)\<close> for each of its members
  \<open>((i, j), dx)\<close>.
\<close>

definition reverse_closed :: "transition list \<Rightarrow> bool" where
  "reverse_closed cls = list_all (\<lambda>((i, j), dx). ((j, i), vneg dx) \<in> set cls) cls"

text \<open>
  A class is seeded by the transition from site \<open>i\<close> in cell 0 to site \<open>j\<close> in cell \<open>n\<close>
  when it is the orbit that \<^verbatim>\<open>jumpnetwork\<close> grew from that transition, and the displacement
  of the transition lies inside the cutoff.
\<close>

definition seeded :: "Crystal \<Rightarrow> nat \<Rightarrow> real \<Rightarrow> transition list \<Rightarrow> nat \<Rightarrow> nat \<Rightarrow> int vec3 \<Rightarrow> bool" where
  "seeded self chem r2 cls i j n = (orbit self chem i j n = Inr cls \<and>
     (case site self (chem, i) of Inl e \<Rightarrow> False | Inr ui \<Rightarrow>
      case site self (chem, j) of Inl e \<Rightarrow> False | Inr uj \<Rightarrow>
        0 < dot (unit2cart self n (vsub uj ui)) (unit2cart self n (vsub uj ui)) \<and>
        dot (unit2cart self n (vsub uj ui)) (unit2cart self n (vsub uj ui)) < r2))"

text \<open>The test \<^verbatim>\<open>np.dot(dx, dx) > 0 and np.dot(dx,dx) < r2\<close> on a candidate.\<close>

definition in_cutoff :: "Crystal \<Rightarrow> real \<Rightarrow> (nat \<times> real vec3) \<times> (nat \<times> real vec3) \<times> int vec3 \<Rightarrow> bool" where
  "in_cutoff self r2 x = (case x of ((i, u0), (j, u1), n) \<Rightarrow>
     dot (unit2cart self n (vsub u1 u0)) (unit2cart self n (vsub u1 u0)) > 0 \<and>
     dot (unit2cart self n (vsub u1 u0)) (unit2cart self n (vsub u1 u0)) < r2)"

text \<open>
  Applying \<open>g\<close> to a member \<open>((i, j), dx)\<close> of a class: the lattice vector of the member is
  recovered as \<^verbatim>\<open>jumpnetwork2lattice\<close> does, and both end points are mapped by \<^verbatim>\<open>g_pos\<close> as
  in the orbit loop.
\<close>

definition jump_image :: "Crystal \<Rightarrow> nat \<Rightarrow> GroupOp \<Rightarrow> transition \<Rightarrow> error + transition" where
  "jump_image self chem g t = (case jump_lattvec self chem t of Inl e \<Rightarrow> Inl e
     | Inr n \<Rightarrow> g_jump self chem (fst (fst t)) (snd (fst t)) n g)"

section \<open>Concrete inputs\<close>





text \<open>
  An orthorhombic cell with two atoms of one species, the crystal that \<^verbatim>\<open>Crystal(lattice, basis)\<close>
  builds from it, and two of its eight operations: the inversion and a two-fold screw
  rotation about the third axis.
\<close>

definition ex_lattice :: "real mat3" where
  "ex_lattice = ((1, 0, 0), (0, 2, 0), (0, 0, 3))"

definition ex_basis_in :: "real vec3 list list" where
  "ex_basis_in = [[(1 / 8, 1 / 4, 0), (7 / 8, 3 / 4, 1 / 2)]]"

definition ex_inversion :: GroupOp where
  "ex_inversion = \<lparr>rot = ((- 1, 0, 0), (0, - 1, 0), (0, 0, - 1)), trans = (0, 0, 0),
     cartrot = ((- 1, 0, 0), (0, - 1, 0), (0, 0, - 1)), indexmap = [[1, 0]]\<rparr>"

definition ex_screw :: GroupOp where
  "ex_screw = \<lparr>rot = ((- 1, 0, 0), (0, - 1, 0), (0, 0, 1)), trans = (0, 0, - 1 / 2),
     cartrot = ((- 1, 0, 0), (0, - 1, 0), (0, 0, 1)), indexmap = [[1, 0]]\<rparr>"

definition ex_G :: "GroupOp list" where
  "ex_G = [ex_inversion, ex_screw,
     \<lparr>rot = ((- 1, 0, 0), (0, 1, 0), (0, 0, - 1)), trans = (0, - 1 / 2, 0),
       cartrot = ((- 1, 0, 0), (0, 1, 0), (0, 0, - 1)), indexmap = [[1, 0]]\<rparr>,
     \<lparr>rot = ((- 1, 0, 0), (0, 1, 0), (0, 0, 1)), trans = (0, - 1 / 2, - 1 / 2),
       cartrot = ((- 1, 0, 0), (0, 1, 0), (0, 0, 1)), indexmap = [[1, 0]]\<rparr>,
     \<lparr>rot = ((1, 0, 0), (0, - 1, 0), (0, 0, - 1)), trans = (0, - 1 / 2, - 1 / 2),
       cartrot = ((1, 0, 0), (0, - 1, 0), (0, 0, - 1)), indexmap = [[0, 1]]\<rparr>,
     \<lparr>rot = ((1, 0, 0), (0, - 1, 0), (0, 0, 1)), trans = (0, - 1 / 2, 0),
       cartrot = ((1, 0, 0), (0, - 1, 0), (0, 0, 1)), indexmap = [[0, 1]]\<rparr>,
     \<lparr>rot = ((1, 0, 0), (0, 1, 0), (0, 0, - 1)), trans = (0, 0, - 1 / 2),
       cartrot = ((1, 0, 0), (0, 1, 0), (0, 0, - 1)), indexmap = [[0, 1]]\<rparr>,
     \<lparr>rot = ((1, 0, 0), (0, 1, 0), (0, 0, 1)), trans = (0, 0, 0),
       cartrot = ((1, 0, 0), (0, 1, 0), (0, 0, 1)), indexmap = [[0, 1]]\<rparr>]"

definition ex_crystal :: Crystal where
  "ex_crystal = \<lparr>lattice = ex_lattice,
     basis = [[(5 / 8, 1 / 4, 1 / 4), (3 / 8, 3 / 4, 3 / 4)]],
     invlatt = ((1, 0, 0), (0, 1 / 2, 0), (0, 0, 1 / 3)), N = 2, Nchem = 1,
     metric = ((1, 0, 0), (0, 4, 0), (0, 0, 9)), G = ex_G\<rparr>"


text \<open>The crystal built from the same lattice and a single atom at (0.3, 0.2, 1/7).\<close>

definition ex_single :: Crystal where
  "ex_single = \<lparr>lattice = ex_lattice, basis = [[(0, 0, 0)]],
     invlatt = ((1, 0, 0), (0, 1 / 2, 0), (0, 0, 1 / 3)), N = 1, Nchem = 1,
     metric = ((1, 0, 0), (0, 4, 0), (0, 0, 9)),
     G = map (\<lambda>r. \<lparr>rot = r, trans = (0, 0, 0), cartrot = mmap of_int r, indexmap = [[0]]\<rparr>)
       [((- 1, 0, 0), (0, - 1, 0), (0, 0, - 1)), ((- 1, 0, 0), (0, - 1, 0), (0, 0, 1)),
        ((- 1, 0, 0), (0, 1, 0), (0, 0, - 1)), ((- 1, 0, 0), (0, 1, 0), (0, 0, 1)),
        ((1, 0, 0), (0, - 1, 0), (0, 0, - 1)), ((1, 0, 0), (0, - 1, 0), (0, 0, 1)),
        ((1, 0, 0), (0, 1, 0), (0, 0, - 1)), ((1, 0, 0), (0, 1, 0), (0, 0, 1))]\<rparr>"


text \<open>A skewed cubic lattice with two atoms before and after \<^verbatim>\<open>minlattice\<close>.\<close>

definition ex_skew :: Crystal where
  "ex_skew = \<lparr>lattice = ((1, 1, 0), (0, 1, 0), (0, 0, 1)),
     basis = [[(3 / 10, 1 / 5, 1 / 7), (0, 0, 0)]],
     invlatt = (zero3, zero3, zero3), N = 0, Nchem = 0, metric = (zero3, zero3, zero3), G = []\<rparr>"

definition ex_skew_min :: Crystal where
  "ex_skew_min = \<lparr>lattice = ((1, 0, 0), (0, 0, - 1), (0, 1, 0)),
     basis = [[(1 / 2, 1 / 7, 4 / 5), (0, 0, 0)]],
     invlatt = (zero3, zero3, zero3), N = 0, Nchem = 0, metric = (zero3, zero3, zero3), G = []\<rparr>"


text \<open>
  A cell doubled along its first axis, with four atoms of one species, built with
  \<^verbatim>\<open>noreduce=True\<close>; its four operations; and the two classes of its jump network with
  cutoff 1/8.
\<close>

definition sc_lattice :: "real mat3" where
  "sc_lattice = ((1 / 4, 0, 0), (0, 9 / 32, 0), (0, 0, 5 / 16))"

definition sc_basis :: "real vec3 list list" where
  "sc_basis = [[(7 / 8, 3 / 8, 3 / 8), (3 / 8, 3 / 8, 3 / 8), (1 / 8, 5 / 8, 5 / 8),
     (5 / 8, 5 / 8, 5 / 8)]]"

definition sc_inversion :: GroupOp where
  "sc_inversion = \<lparr>rot = ((- 1, 0, 0), (0, - 1, 0), (0, 0, - 1)), trans = (0, 0, 0),
     cartrot = ((- 1, 0, 0), (0, - 1, 0), (0, 0, - 1)), indexmap = [[2, 3, 0, 1]]\<rparr>"

definition sc_mirror :: GroupOp where
  "sc_mirror = \<lparr>rot = ((- 1, 0, 0), (0, 1, 0), (0, 0, 1)), trans = (- 1 / 4, 0, 0),
     cartrot = ((- 1, 0, 0), (0, 1, 0), (0, 0, 1)), indexmap = [[0, 1, 3, 2]]\<rparr>"

definition sc_screw :: GroupOp where
  "sc_screw = \<lparr>rot = ((1, 0, 0), (0, - 1, 0), (0, 0, - 1)), trans = (1 / 4, 0, 0),
     cartrot = ((1, 0, 0), (0, - 1, 0), (0, 0, - 1)), indexmap = [[2, 3, 1, 0]]\<rparr>"

definition sc_crystal :: Crystal where
  "sc_crystal = \<lparr>lattice = sc_lattice, basis = sc_basis,
     invlatt = ((4, 0, 0), (0, 32 / 9, 0), (0, 0, 16 / 5)), N = 4, Nchem = 1,
     metric = ((1 / 16, 0, 0), (0, 81 / 1024, 0), (0, 0, 25 / 256)),
     G = [sc_inversion, sc_mirror, sc_screw, ident sc_basis]\<rparr>"

definition sc_class :: "transition list" where
  "sc_class = [((2, 0), (- 1 / 16, - 9 / 128, - 5 / 64)), ((0, 2), (1 / 16, 9 / 128, 5 / 64)),
     ((0, 3), (- 1 / 16, 9 / 128, 5 / 64)), ((3, 0), (1 / 16, - 9 / 128, - 5 / 64)),
     ((2, 1), (1 / 16, - 9 / 128, - 5 / 64)), ((1, 2), (- 1 / 16, 9 / 128, 5 / 64))]"

definition sc_class2 :: "transition list" where
  "sc_class2 = [((3, 1), (- 1 / 16, - 9 / 128, - 5 / 64)), ((1, 3), (1 / 16, 9 / 128, 5 / 64)),
     ((1, 2), (- 1 / 16, 9 / 128, 5 / 64)), ((2, 1), (1 / 16, - 9 / 128, - 5 / 64)),
     ((3, 0), (1 / 16, - 9 / 128, - 5 / 64)), ((0, 3), (- 1 / 16, 9 / 128, 5 / 64))]"

section \<open>Lists, permutations and 3x3 matrices\<close>



lemma np_round_of_int [simp]: "np_round (of_int n) = n"
  by (simp add: np_round_def)

lemma np_round_neg_of_int [simp]: "np_round (- of_int n) = - n"
  using np_round_of_int [of "- n"] by (simp del: np_round_of_int)




lemma mat3_exhaust:
  obtains a b c d e f g h i where "m = ((a, b, c), (d, e, f), (g, h, i))"
  by (cases m) auto

lemmas mat_defs = mat_mul_def mat_vec_def transpose3_def dot_def cross_def det3_def
  adj3_def eye3_def mmap_def vmap_def vadd_def vsub_def vneg_def smul_def zero3_def


lemma det3_of_int: "det3 (mmap of_int m) = (of_int (det3 m) :: real)"
  by (cases m rule: mat3_exhaust) (simp add: mat_defs)





lemma mat_vec_eye3 [simp]: "mat_vec eye3 v = (v :: 'a::comm_ring_1 vec3)"
  by (cases v) (simp add: mat_defs)

lemma mmap_of_int_eye3 [simp]: "mmap of_int eye3 = (eye3 :: real mat3)"
  by (simp add: mat_defs)

lemma mat_mul_eye3 [simp]:
  fixes a :: "'a::comm_ring_1 mat3"
  shows "mat_mul eye3 a = a" and "mat_mul a eye3 = a"
  by (cases a rule: mat3_exhaust; simp add: mat_defs)+

















lemma floor_minus_one_real [simp]: "\<lfloor>- 1 :: real\<rfloor> = - 1"
  by (rule floor_unique) simp_all


section \<open>What a successful translation match guarantees\<close>









section \<open>Members of the generated group\<close>

lemma gengroup_loop_members:
  assumes "gengroup_loop self cands acc = Inr Gs" "g \<in> set Gs"
  shows "g \<in> set acc \<or> accepted self cands g"
  using assms
proof (induction cands arbitrary: acc)
  case Nil
  then show ?case by simp
next
  case (Cons s rest)
  let ?m = "maptranslation (basis self) (map (map (mat_vec (mmap of_int s))) (basis self)) (1 / 10 ^ 8)"
  have mono: "accepted self rest g \<Longrightarrow> accepted self (s # rest) g"
    by (simp add: accepted_def)
  show ?case
  proof (cases "allclose_mat (mat_mul (transpose3 (mmap of_int s)) (mat_mul (metric self) (mmap of_int s))) (metric self)")
    case False
    with Cons.prems have "gengroup_loop self rest acc = Inr Gs" by (simp add: Let_def)
    from Cons.IH [OF this Cons.prems(2)] mono show ?thesis by blast
  next
    case True
    show ?thesis
    proof (cases ?m)
      case (Inl e)
      with True Cons.prems show ?thesis by (simp add: Let_def)
    next
      case (Inr r)
      show ?thesis
      proof (cases r)
        case None
        with True Inr Cons.prems have "gengroup_loop self rest acc = Inr Gs" by (simp add: Let_def)
        from Cons.IH [OF this Cons.prems(2)] mono show ?thesis by blast
      next
        case (Some p)
        obtain t im where p: "p = (t, im)" by (cases p)
        let ?g = "\<lparr>rot = s, trans = t,
                 cartrot = mat_mul (lattice self) (mat_mul (mmap of_int s) (invlatt self)),
                 indexmap = im\<rparr>"
        from True Inr Some p Cons.prems
        have "gengroup_loop self rest (acc @ [?g]) = Inr Gs" by (simp add: Let_def)
        from Cons.IH [OF this Cons.prems(2)]
        have "g \<in> set acc \<or> g = ?g \<or> accepted self rest g" by auto
        moreover have "accepted self (s # rest) ?g"
          using Inr Some p by (simp add: accepted_def)
        ultimately show ?thesis using mono by blast
      qed
    qed
  qed
qed

lemma gengroup_members:
  assumes "gengroup self = Inr Gs" "g \<in> set Gs"
  shows "accepted self (candidate_supercells (metric self)) g"
  using gengroup_loop_members [of self _ "[]" Gs g] assms by (simp add: gengroup_def)

lemma det3_transpose3:
  fixes m :: "'a::comm_ring_1 mat3"
  shows "det3 (transpose3 m) = det3 m"
  by (cases m rule: mat3_exhaust) (simp add: mat_defs algebra_simps)

lemma candidate_det:
  assumes "s \<in> set (candidate_supercells m)"
  shows "\<bar>det3 s\<bar> = 1"
proof -
  obtain m0 m1 m2 where mv: "matchvect m = (m0, m1, m2)" by (cases "matchvect m") auto
  from assms obtain r0 r1 r2 where "s = transpose3 (r0, r1, r2)" "\<bar>dot r0 (cross r1 r2)\<bar> = 1"
    by (auto simp: candidate_supercells_def mv)
  then show ?thesis by (simp add: det3_transpose3) (simp add: det3_def)
qed

section \<open>Evaluating the construction on the orthorhombic example\<close>

lemmas eval_defs = mat_defs vall_def isclose_def allclose_def allclose_mat_def incell_def
  inhalf_def np_round_def py_index_def linalg_inv_def longest_list_def close_mod_cell_def
  first_match_def maplist_of_def maptranslation_def enumerate_eq_zip Let_def mdiag_def

lemmas ex_defs = ex_lattice_def ex_basis_in_def ex_inversion_def ex_screw_def ex_G_def
  ex_crystal_def

lemma gengroup_loop_G_update:
  "gengroup_loop (self\<lparr>G := x\<rparr>) cands acc = gengroup_loop self cands acc"
  by (induction cands arbitrary: acc)
     (simp_all add: Let_def split: sum.splits option.splits prod.splits)

lemma gengroup_G_update: "gengroup (self\<lparr>G := x\<rparr>) = gengroup self"
  by (simp add: gengroup_def gengroup_loop_G_update)

lemma ex_candidates:
  "candidate_supercells ((1, 0, 0), (0, 4, 0), (0, 0, 9)) =
     [((- 1, 0, 0), (0, - 1, 0), (0, 0, - 1)), ((- 1, 0, 0), (0, - 1, 0), (0, 0, 1)),
      ((- 1, 0, 0), (0, 1, 0), (0, 0, - 1)), ((- 1, 0, 0), (0, 1, 0), (0, 0, 1)),
      ((1, 0, 0), (0, - 1, 0), (0, 0, - 1)), ((1, 0, 0), (0, - 1, 0), (0, 0, 1)),
      ((1, 0, 0), (0, 1, 0), (0, 0, - 1)), ((1, 0, 0), (0, 1, 0), (0, 0, 1))]"
  by (simp add: candidate_supercells_def matchvect_def supercellvect_def mdiag_def isclose_def
      mat_defs)

lemma ex_gengroup: "gengroup ex_crystal = Inr ex_G"
  unfolding gengroup_def
  by (simp add: ex_defs ex_candidates) (simp add: eval_defs)

lemma ex_init:
  "Crystal_init ex_lattice ex_basis_in False False = Some (Inr ex_crystal)"
proof -
  define s0 where "s0 = \<lparr>lattice = ex_lattice, basis = ex_basis_in,
     invlatt = (zero3, zero3, zero3), N = 0, Nchem = 0, metric = (zero3, zero3, zero3), G = []\<rparr>"
  have i: "map (map incell) ex_basis_in = ex_basis_in"
    by (simp add: ex_defs eval_defs)
  have r: "reduce s0 (1 / 10 ^ 8) = Some (Inr s0)"
    by (subst reduce.simps) (simp add: s0_def ex_defs eval_defs is_translation_def)
  have m: "minlattice s0 = Some (Inr s0)"
    by (subst minlattice.simps)
       (simp add: s0_def ex_defs eval_defs minlattice_sort_def sort_super_def perm_super_def
          magnlist_def unit_vec_def negate_col2_def minlattice_reduction_def less_eq_prod_def)
  define s3 where "s3 = s0\<lparr>invlatt := ((1, 0, 0), (0, 1 / 2, 0), (0, 0, 1 / 3)), N := 2, Nchem := 1,
     metric := ((1, 0, 0), (0, 4, 0), (0, 0, 9))\<rparr>"
  have f: "init_fields s0 = Inr s3"
    by (simp add: init_fields_def calcmetric_def s0_def s3_def ex_defs eval_defs)
  have c: "center s3 = Inr (ex_crystal\<lparr>G := []\<rparr>)"
    by (simp add: center_def s3_def s0_def ex_defs eval_defs center_shift_def shift_component_def
        build_indexmap.simps)
  have g: "init_group False (ex_crystal\<lparr>G := []\<rparr>) = Inr ex_crystal"
    by (simp add: init_group_def gengroup_G_update ex_gengroup) (simp add: ex_crystal_def)
  have n: "ex_basis_in \<noteq> []" by (simp add: ex_basis_in_def)
  show ?thesis
    unfolding Crystal_init_def i Let_def s0_def [symmetric]
    by (simp only: n r m f c g if_False option.case sum.case)
qed

section \<open>Stages of the construction\<close>

lemma Crystal_init_stages:
  assumes "Crystal_init latt bas NOSYM noreduce = Some (Inr c)"
  obtains self2 self3 self4 where "init_fields self2 = Inr self3" "center self3 = Inr self4"
    "init_group NOSYM self4 = Inr c"
  using assms unfolding Crystal_init_def
  by (auto simp: Let_def split: if_splits option.splits sum.splits)

lemma init_group_fields:
  assumes "init_group NOSYM self = Inr c"
  shows "basis c = basis self" "N c = N self" "lattice c = lattice self"
    "invlatt c = invlatt self" "metric c = metric self" "Nchem c = Nchem self"
    "G c = (if NOSYM then [ident (basis self)] else G c)"
    "\<not> NOSYM \<Longrightarrow> gengroup self = Inr (G c)"
  using assms by (auto simp: init_group_def split: if_splits sum.splits)

lemma center_fields:
  assumes "center self = Inr c"
  shows "N c = N self" "lattice c = lattice self" "invlatt c = invlatt self"
    "metric c = metric self" "Nchem c = Nchem self"
  using assms
  by (auto simp: center_def Let_def split: if_splits sum.splits option.splits prod.splits)

lemma center_single:
  assumes "center self = Inr c" "N self = 1"
  shows "basis c = [[(0, 0, 0)]]"
  using assms by (auto simp: center_def)


lemma ex_single_init:
  "Crystal_init ex_lattice [[(3 / 10, 1 / 5, 1 / 7)]] False False = Some (Inr ex_single)"
proof -
  define s0 where "s0 = \<lparr>lattice = ex_lattice, basis = [[(3 / 10, 1 / 5, 1 / 7)]],
     invlatt = (zero3, zero3, zero3), N = 0, Nchem = 0, metric = (zero3, zero3, zero3), G = []\<rparr>"
  have i: "map (map incell) [[(3 / 10, 1 / 5, 1 / 7)]] = [[(3 / 10, 1 / 5, 1 / 7)]]"
    by (simp add: eval_defs)
  have r: "reduce s0 (1 / 10 ^ 8) = Some (Inr s0)"
    by (subst reduce.simps) (simp add: s0_def eval_defs)
  have m: "minlattice s0 = Some (Inr s0)"
    by (subst minlattice.simps)
       (simp add: s0_def ex_defs eval_defs minlattice_sort_def sort_super_def perm_super_def
          magnlist_def unit_vec_def negate_col2_def minlattice_reduction_def less_eq_prod_def)
  define s3 where "s3 = s0\<lparr>invlatt := ((1, 0, 0), (0, 1 / 2, 0), (0, 0, 1 / 3)), N := 1, Nchem := 1,
     metric := ((1, 0, 0), (0, 4, 0), (0, 0, 9))\<rparr>"
  have f: "init_fields s0 = Inr s3"
    by (simp add: init_fields_def calcmetric_def s0_def s3_def ex_defs eval_defs)
  have c: "center s3 = Inr (ex_single\<lparr>G := []\<rparr>)"
    by (simp add: center_def s3_def s0_def ex_single_def)
  have gg: "gengroup ex_single = Inr (G ex_single)"
    unfolding gengroup_def
    by (simp add: ex_single_def ex_defs ex_candidates eval_defs)
  have g: "init_group False (ex_single\<lparr>G := []\<rparr>) = Inr ex_single"
    by (simp add: init_group_def gengroup_G_update gg)
  have n: "[[(3 / 10, 1 / 5, 1 / 7)]] \<noteq> ([] :: real vec3 list list)" by simp
  show ?thesis
    unfolding Crystal_init_def i Let_def s0_def [symmetric]
    by (simp only: n r m f c g if_False option.case sum.case)
qed

section \<open>Properties of the wrapping helpers\<close>




section \<open>Lattice minimization reaches a fixed point\<close>

lemma sort3_cases:
  fixes m0 m1 m2 :: real
  obtains
    (p012) "m0 \<le> m1" "m1 \<le> m2" "sort [(m0, 0::nat), (m1, 1), (m2, 2)] = [(m0, 0), (m1, 1), (m2, 2)]"
  | (p021) "m0 \<le> m2" "m2 < m1" "sort [(m0, 0::nat), (m1, 1), (m2, 2)] = [(m0, 0), (m2, 2), (m1, 1)]"
  | (p102) "m1 < m0" "m0 \<le> m2" "sort [(m0, 0::nat), (m1, 1), (m2, 2)] = [(m1, 1), (m0, 0), (m2, 2)]"
  | (p120) "m1 \<le> m2" "m2 < m0" "sort [(m0, 0::nat), (m1, 1), (m2, 2)] = [(m1, 1), (m2, 2), (m0, 0)]"
  | (p201) "m2 < m0" "m0 \<le> m1" "sort [(m0, 0::nat), (m1, 1), (m2, 2)] = [(m2, 2), (m0, 0), (m1, 1)]"
  | (p210) "m2 < m1" "m1 < m0" "sort [(m0, 0::nat), (m1, 1), (m2, 2)] = [(m2, 2), (m1, 1), (m0, 0)]"
proof -
  consider "m0 \<le> m1 \<and> m1 \<le> m2" | "m0 \<le> m2 \<and> m2 < m1" | "m1 < m0 \<and> m0 \<le> m2"
    | "m1 \<le> m2 \<and> m2 < m0" | "m2 < m0 \<and> m0 \<le> m1" | "m2 < m1 \<and> m1 < m0" by linarith
  then show ?thesis
  proof cases
    case 1 then show ?thesis by (intro p012) (auto simp: less_eq_prod_def)
  next
    case 2 then show ?thesis by (intro p021) (auto simp: less_eq_prod_def)
  next
    case 3 then show ?thesis by (intro p102) (auto simp: less_eq_prod_def)
  next
    case 4 then show ?thesis by (intro p120) (auto simp: less_eq_prod_def)
  next
    case 5 then show ?thesis by (intro p201) (auto simp: less_eq_prod_def)
  next
    case 6 then show ?thesis by (intro p210) (auto simp: less_eq_prod_def)
  qed
qed


lemma sort3_sorted:
  fixes m0 m1 m2 :: real
  assumes "m0 \<le> m1" "m1 \<le> m2"
  shows "sort [(m0, 0::nat), (m1, 1), (m2, 2)] = [(m0, 0), (m1, 1), (m2, 2)]"
  using assms by (auto simp: less_eq_prod_def)

lemma det3_mat_mul:
  fixes a b :: "'a::comm_ring_1 mat3"
  shows "det3 (mat_mul a b) = det3 a * det3 b"
  by (cases a rule: mat3_exhaust, cases b rule: mat3_exhaust) (simp add: mat_defs algebra_simps)

lemma det3_negate_col2: "det3 (negate_col2 p) = - det3 p"
  by (cases p rule: mat3_exhaust) (simp add: mat_defs negate_col2_def algebra_simps)

lemma sort_super_det: "0 \<le> det3 latt * of_int (det3 (sort_super latt))"
  by (simp add: sort_super_def Let_def det3_negate_col2 not_less)

lemma sort_super_sorted:
  assumes "magnlist latt = [(n0, 0), (n1, 1), (n2, 2)]" "0 \<le> det3 latt"
  shows "sort_super latt = eye3"
  using assms
  by (simp add: sort_super_def perm_super_def unit_vec_def transpose3_def eye3_def det3_def
      dot_def cross_def not_less)

lemma sort_super_idem:
  "sort_super (mat_mul latt (mmap of_int (sort_super latt))) = eye3"
proof -
  define L where "L = latt"
  define L' where "L' = mat_mul L (mmap of_int (sort_super L))"
  obtain a b c d e f g h i where L: "L = ((a, b, c), (d, e, f), (g, h, i))"
    by (rule mat3_exhaust)
  have norm: "magnlist ((x0, y0, z0), (x1, y1, z1), (x2, y2, z2)) =
      sort [(x0 * x0 + x1 * x1 + x2 * x2, 0), (y0 * y0 + y1 * y1 + y2 * y2, 1),
            (z0 * z0 + z1 * z1 + z2 * z2, 2)]" for x0 y0 z0 x1 y1 z1 x2 y2 z2 :: real
    by (simp add: magnlist_def transpose3_def dot_def)
  have ml: "magnlist L = sort [(a * a + d * d + g * g, 0), (b * b + e * e + h * h, 1),
      (c * c + f * f + i * i, 2)]"
    by (simp add: L norm)
  have D: "0 \<le> det3 L'"
    using sort_super_det [of L] by (simp add: L'_def det3_mat_mul det3_of_int)
  have "\<exists>n0 n1 n2. magnlist L' = [(n0, 0), (n1, 1), (n2, 2)]"
  proof (cases "a * a + d * d + g * g" "b * b + e * e + h * h" "c * c + f * f + i * i"
      rule: sort3_cases)
    case p012
    have s: "sort_super L = ((1, 0, 0), (0, 1, 0), (0, 0, 1)) \<or> sort_super L = ((1, 0, 0), (0, 1, 0), (0, 0, - 1))"
      using p012(3) by (simp add: sort_super_def ml perm_super_def unit_vec_def transpose3_def
          negate_col2_def Let_def)
    have "magnlist (mat_mul L (mmap of_int (((1, 0, 0), (0, 1, 0), (0, 0, 1)) :: int mat3))) =
        [((a * a + d * d + g * g), 0), ((b * b + e * e + h * h), 1), ((c * c + f * f + i * i), 2)]"
      "magnlist (mat_mul L (mmap of_int (((1, 0, 0), (0, 1, 0), (0, 0, - 1)) :: int mat3))) =
        [((a * a + d * d + g * g), 0), ((b * b + e * e + h * h), 1), ((c * c + f * f + i * i), 2)]"
      using p012(1,2) by (simp_all add: L norm mat_defs sort3_sorted)
    with s show ?thesis unfolding L'_def by auto
  next
    case p021
    have s: "sort_super L = ((1, 0, 0), (0, 0, 1), (0, 1, 0)) \<or> sort_super L = ((1, 0, 0), (0, 0, - 1), (0, 1, 0))"
      using p021(3) by (simp add: sort_super_def ml perm_super_def unit_vec_def transpose3_def
          negate_col2_def Let_def)
    have "magnlist (mat_mul L (mmap of_int (((1, 0, 0), (0, 0, 1), (0, 1, 0)) :: int mat3))) =
        [((a * a + d * d + g * g), 0), ((c * c + f * f + i * i), 1), ((b * b + e * e + h * h), 2)]"
      "magnlist (mat_mul L (mmap of_int (((1, 0, 0), (0, 0, - 1), (0, 1, 0)) :: int mat3))) =
        [((a * a + d * d + g * g), 0), ((c * c + f * f + i * i), 1), ((b * b + e * e + h * h), 2)]"
      using p021(1,2) by (simp_all add: L norm mat_defs sort3_sorted)
    with s show ?thesis unfolding L'_def by auto
  next
    case p102
    have s: "sort_super L = ((0, 1, 0), (1, 0, 0), (0, 0, 1)) \<or> sort_super L = ((0, 1, 0), (1, 0, 0), (0, 0, - 1))"
      using p102(3) by (simp add: sort_super_def ml perm_super_def unit_vec_def transpose3_def
          negate_col2_def Let_def)
    have "magnlist (mat_mul L (mmap of_int (((0, 1, 0), (1, 0, 0), (0, 0, 1)) :: int mat3))) =
        [((b * b + e * e + h * h), 0), ((a * a + d * d + g * g), 1), ((c * c + f * f + i * i), 2)]"
      "magnlist (mat_mul L (mmap of_int (((0, 1, 0), (1, 0, 0), (0, 0, - 1)) :: int mat3))) =
        [((b * b + e * e + h * h), 0), ((a * a + d * d + g * g), 1), ((c * c + f * f + i * i), 2)]"
      using p102(1,2) by (simp_all add: L norm mat_defs sort3_sorted)
    with s show ?thesis unfolding L'_def by auto
  next
    case p120
    have s: "sort_super L = ((0, 0, 1), (1, 0, 0), (0, 1, 0)) \<or> sort_super L = ((0, 0, - 1), (1, 0, 0), (0, 1, 0))"
      using p120(3) by (simp add: sort_super_def ml perm_super_def unit_vec_def transpose3_def
          negate_col2_def Let_def)
    have "magnlist (mat_mul L (mmap of_int (((0, 0, 1), (1, 0, 0), (0, 1, 0)) :: int mat3))) =
        [((b * b + e * e + h * h), 0), ((c * c + f * f + i * i), 1), ((a * a + d * d + g * g), 2)]"
      "magnlist (mat_mul L (mmap of_int (((0, 0, - 1), (1, 0, 0), (0, 1, 0)) :: int mat3))) =
        [((b * b + e * e + h * h), 0), ((c * c + f * f + i * i), 1), ((a * a + d * d + g * g), 2)]"
      using p120(1,2) by (simp_all add: L norm mat_defs sort3_sorted)
    with s show ?thesis unfolding L'_def by auto
  next
    case p201
    have s: "sort_super L = ((0, 1, 0), (0, 0, 1), (1, 0, 0)) \<or> sort_super L = ((0, 1, 0), (0, 0, - 1), (1, 0, 0))"
      using p201(3) by (simp add: sort_super_def ml perm_super_def unit_vec_def transpose3_def
          negate_col2_def Let_def)
    have "magnlist (mat_mul L (mmap of_int (((0, 1, 0), (0, 0, 1), (1, 0, 0)) :: int mat3))) =
        [((c * c + f * f + i * i), 0), ((a * a + d * d + g * g), 1), ((b * b + e * e + h * h), 2)]"
      "magnlist (mat_mul L (mmap of_int (((0, 1, 0), (0, 0, - 1), (1, 0, 0)) :: int mat3))) =
        [((c * c + f * f + i * i), 0), ((a * a + d * d + g * g), 1), ((b * b + e * e + h * h), 2)]"
      using p201(1,2) by (simp_all add: L norm mat_defs sort3_sorted)
    with s show ?thesis unfolding L'_def by auto
  next
    case p210
    have s: "sort_super L = ((0, 0, 1), (0, 1, 0), (1, 0, 0)) \<or> sort_super L = ((0, 0, - 1), (0, 1, 0), (1, 0, 0))"
      using p210(3) by (simp add: sort_super_def ml perm_super_def unit_vec_def transpose3_def
          negate_col2_def Let_def)
    have "magnlist (mat_mul L (mmap of_int (((0, 0, 1), (0, 1, 0), (1, 0, 0)) :: int mat3))) =
        [((c * c + f * f + i * i), 0), ((b * b + e * e + h * h), 1), ((a * a + d * d + g * g), 2)]"
      "magnlist (mat_mul L (mmap of_int (((0, 0, - 1), (0, 1, 0), (1, 0, 0)) :: int mat3))) =
        [((c * c + f * f + i * i), 0), ((b * b + e * e + h * h), 1), ((a * a + d * d + g * g), 2)]"
      using p210(1,2) by (simp_all add: L norm mat_defs sort3_sorted)
    with s show ?thesis unfolding L'_def by auto
  qed
  then show ?thesis using D sort_super_sorted unfolding L'_def L_def by blast
qed


lemma minlattice_sort_idem:
  assumes "minlattice_sort self = Inr self1"
  shows "minlattice_sort self1 = Inr self1"
proof (cases "sort_super (lattice self) = eye3")
  case True
  with assms show ?thesis by (simp add: minlattice_sort_def)
next
  case False
  with assms have "apply_supercell self (sort_super (lattice self)) = Inr self1"
    by (simp add: minlattice_sort_def)
  then have "lattice self1 = mat_mul (lattice self) (mmap of_int (sort_super (lattice self)))"
    by (auto simp: apply_supercell_def split: sum.splits)
  then have "sort_super (lattice self1) = eye3" by (simp add: sort_super_idem)
  then show ?thesis by (simp add: minlattice_sort_def)
qed

lemma minlattice_result_minimized:
  assumes "minlattice self = Some y"
  shows "case y of Inl e \<Rightarrow> True | Inr self' \<Rightarrow> minimized self'"
proof (rule minlattice.raw_induct
    [where P = "\<lambda>self y. case y of Inl e \<Rightarrow> True | Inr self' \<Rightarrow> minimized self'", OF _ assms])
  fix f :: "Crystal \<Rightarrow> (error + Crystal) option" and self y
  assume IH: "\<And>x y. f x = Some y \<Longrightarrow> case y of Inl e \<Rightarrow> True | Inr self' \<Rightarrow> minimized self'"
    and B: "(case minlattice_sort self of Inl e \<Rightarrow> Some (Inl e)
      | Inr self1 \<Rightarrow>
          case minlattice_reduction (lattice self1) of Inl e \<Rightarrow> Some (Inl e)
          | Inr None \<Rightarrow> Some (Inr self1)
          | Inr (Some super) \<Rightarrow>
              case apply_supercell self1 super of Inl e \<Rightarrow> Some (Inl e)
              | Inr self2 \<Rightarrow> f self2) = Some y"
  show "case y of Inl e \<Rightarrow> True | Inr self' \<Rightarrow> minimized self'"
  proof (cases y)
    case (Inl e)
    then show ?thesis by simp
  next
    case (Inr s')
    from B Inr obtain self1 where s1: "minlattice_sort self = Inr self1"
      by (auto split: sum.splits)
    show ?thesis
    proof (cases "minlattice_reduction (lattice self1)")
      case (Inl e)
      with B s1 Inr show ?thesis by simp
    next
      case r: (Inr red)
      show ?thesis
      proof (cases red)
        case None
        with B s1 r Inr have "s' = self1" by simp
        with s1 r None Inr minlattice_sort_idem [OF s1] show ?thesis
          by (simp add: minimized_def)
      next
        case (Some super)
        show ?thesis
        proof (cases "apply_supercell self1 super")
          case (Inl e)
          with B s1 r Some Inr show ?thesis by simp
        next
          case a: (Inr self2)
          with B s1 r Some have "f self2 = Some y" by simp
          then show ?thesis by (rule IH)
        qed
      qed
    qed
  qed
qed

lemma minlattice_minimized:
  assumes "minimized self"
  shows "minlattice self = Some (Inr self)"
  using assms by (subst minlattice.simps) (simp add: minimized_def)

lemmas minlattice_eval = minlattice_sort_def sort_super_def perm_super_def magnlist_def
  unit_vec_def negate_col2_def minlattice_reduction_def less_eq_prod_def apply_supercell_def
  remapbasis_def

lemma ex_skew_minlattice: "minlattice ex_skew = Some (Inr ex_skew_min)"
  apply (subst minlattice.simps)
  apply (simp add: ex_skew_def eval_defs minlattice_eval)
  apply (subst minlattice.simps)
  apply (simp add: ex_skew_min_def eval_defs minlattice_eval)
  done


section \<open>The identity is found by the search\<close>

lemma inhalf_range: "in_range (- 1 / 2) (1 / 2) (inhalf v)"
proof -
  have b: "- 1 / 2 \<le> x - of_int \<lfloor>x + 1 / 2\<rfloor> \<and> x - of_int \<lfloor>x + 1 / 2\<rfloor> < 1 / 2"
    for x :: real by linarith
  obtain x y z where v: "v = (x, y, z)" by (cases v) auto
  show ?thesis using b [of x] b [of y] b [of z]
    by (simp add: v in_range_def inhalf_def vmap_def vall_def)
qed

lemma close_mod_cell_refl: "0 < thr \<Longrightarrow> close_mod_cell thr u u zero3"
  by (cases u) (simp add: close_mod_cell_def vall_def inhalf_def vmap_def vsub_def zero3_def)

lemma inhalf_self: "inhalf (vsub u u) = zero3"
  by (cases u) (simp add: inhalf_def vmap_def vsub_def zero3_def)

lemma distinct_mod_cell_nth:
  assumes "distinct_mod_cell thr l" "j < i" "i < length l"
  shows "\<not> close_mod_cell thr (l ! j) (l ! i) zero3"
  using assms
proof (induction l arbitrary: i j)
  case Nil
  then show ?case by simp
next
  case (Cons u us)
  show ?case
  proof (cases j)
    case 0
    with Cons.prems show ?thesis by (cases i) (auto simp: list_all_length)
  next
    case (Suc j')
    with Cons.prems obtain i' where "i = Suc i'" by (cases i) auto
    with Cons Suc show ?thesis by auto
  qed
qed

lemma find_enumerate_first:
  assumes "i < length xs" "P (xs ! i)" "\<forall>j < i. \<not> P (xs ! j)"
  shows "find (\<lambda>(j, u). P u) (enumerate k xs) = Some (k + i, xs ! i)"
  using assms
proof (induction xs arbitrary: k i)
  case Nil
  then show ?case by simp
next
  case (Cons x xs)
  show ?case
  proof (cases i)
    case 0
    with Cons.prems show ?thesis by simp
  next
    case (Suc i')
    with Cons.prems have "\<not> P x" by auto
    moreover have "find (\<lambda>(j, u). P u) (enumerate (Suc k) xs) = Some (Suc k + i', xs ! i')"
      using Cons.prems Suc by (intro Cons.IH) auto
    ultimately show ?thesis using Suc by simp
  qed
qed

lemma first_match_self:
  assumes "0 < thr" "distinct_mod_cell thr l" "i < length l"
  shows "first_match thr l (l ! i) zero3 = Some i"
proof -
  have "find (\<lambda>(j, uj). close_mod_cell thr uj (l ! i) zero3) (enumerate 0 l) = Some (0 + i, l ! i)"
    using assms distinct_mod_cell_nth [OF assms(2) _ assms(3)] close_mod_cell_refl [OF assms(1)]
    by (intro find_enumerate_first) auto
  then show ?thesis by (simp add: first_match_def)
qed

lemma maplist_of_self:
  assumes "0 < thr" "distinct_mod_cell thr l"
  shows "maplist_of thr l l zero3 = [0..<length l]"
proof -
  have "concat (map (\<lambda>rua. case first_match thr l rua zero3 of None \<Rightarrow> [] | Some j \<Rightarrow> [j]) (map (\<lambda>i. l ! i) is))
      = is" if "list_all (\<lambda>i. i < length l) is" for "is"
    using that by (induction "is") (simp_all add: first_match_self [OF assms])
  from this [of "[0..<length l]"] show ?thesis
    by (simp add: maplist_of_def map_nth list_all_iff)
qed

lemma build_indexmap_self:
  assumes "0 < thr" "list_all (distinct_mod_cell thr) bs"
  shows "build_indexmap thr (zip bs bs) zero3 acc = (True, acc @ map (\<lambda>l. [0..<length l]) bs)"
  using assms(2)
  by (induction bs arbitrary: acc) (simp_all add: maplist_of_self [OF assms(1)])

lemma maptranslation_self:
  assumes "0 < thr" "list_all (distinct_mod_cell thr) bs" "maptranslation bs bs thr = Inr r"
  shows "r = Some (zero3, map (\<lambda>l. [0..<length l]) bs)"
proof -
  obtain maxlen atomindex where l: "longest_list bs = (maxlen, atomindex)"
    by (cases "longest_list bs")
  from assms(3) l obtain ubs ru0 where p: "py_index bs atomindex = Inr ubs" "py_index ubs 0 = Inr ru0"
    and r: "r = try_translations thr ubs ru0 (zip bs bs)"
    by (auto simp: maptranslation_def split: if_splits sum.splits)
  from p(2) obtain rest where "ubs = ru0 # rest"
    by (cases ubs) (auto simp: py_index_def)
  then show ?thesis
    using r build_indexmap_self [OF assms(1,2), of "[]"] by (simp add: inhalf_self)
qed

lemma identity_candidate: "eye3 \<in> set (candidate_supercells m)"
proof -
  obtain a b c d e f g h i where m: "m = ((a, b, c), (d, e, f), (g, h, i))" by (rule mat3_exhaust)
  have "(1, 0, 0) \<in> set (fst (matchvect m))" "(0, 1, 0) \<in> set (fst (snd (matchvect m)))"
    "(0, 0, 1) \<in> set (snd (snd (matchvect m)))"
    by (simp_all add: m matchvect_def mdiag_def vmap_def supercellvect_def isclose_def mat_defs)
  moreover have "eye3 = transpose3 ((1, 0, 0), (0, 1, 0), (0, 0, 1 :: int))"
    "\<bar>dot (1, 0, 0) (cross (0, 1, 0) (0, 0, 1 :: int))\<bar> = 1"
    by (simp_all add: mat_defs)
  ultimately show ?thesis
    unfolding candidate_supercells_def
    by (cases "matchvect m") (auto simp del: dot_def intro!: bexI)
qed

lemma gengroup_loop_complete:
  assumes "gengroup_loop self cands acc = Inr Gs"
  shows "set acc \<subseteq> set Gs \<and> (\<forall>s \<in> set cands.
    allclose_mat (mat_mul (transpose3 (mmap of_int s)) (mat_mul (metric self) (mmap of_int s))) (metric self) \<longrightarrow>
    (\<exists>r. maptranslation (basis self) (map (map (mat_vec (mmap of_int s))) (basis self)) (1 / 10 ^ 8) = Inr r \<and>
       (\<forall>t im. r = Some (t, im) \<longrightarrow>
          \<lparr>rot = s, trans = t, cartrot = mat_mul (lattice self) (mat_mul (mmap of_int s) (invlatt self)),
            indexmap = im\<rparr> \<in> set Gs)))"
  using assms
proof (induction cands arbitrary: acc)
  case Nil
  then show ?case by simp
next
  case (Cons s rest)
  let ?ok = "allclose_mat (mat_mul (transpose3 (mmap of_int s)) (mat_mul (metric self) (mmap of_int s))) (metric self)"
  let ?m = "maptranslation (basis self) (map (map (mat_vec (mmap of_int s))) (basis self)) (1 / 10 ^ 8)"
  show ?case
  proof (cases ?ok)
    case False
    with Cons.prems have "gengroup_loop self rest acc = Inr Gs" by (simp add: Let_def)
    from Cons.IH [OF this] False show ?thesis by auto
  next
    case True
    show ?thesis
    proof (cases ?m)
      case (Inl e)
      with True Cons.prems show ?thesis by (simp add: Let_def)
    next
      case (Inr r)
      show ?thesis
      proof (cases r)
        case None
        with True Inr Cons.prems have "gengroup_loop self rest acc = Inr Gs" by (simp add: Let_def)
        from Cons.IH [OF this] Inr None show ?thesis by auto
      next
        case (Some p)
        obtain t im where p: "p = (t, im)" by (cases p)
        let ?g = "\<lparr>rot = s, trans = t,
                 cartrot = mat_mul (lattice self) (mat_mul (mmap of_int s) (invlatt self)),
                 indexmap = im\<rparr>"
        from True Inr Some p Cons.prems
        have "gengroup_loop self rest (acc @ [?g]) = Inr Gs" by (simp add: Let_def)
        from Cons.IH [OF this] Inr Some p show ?thesis by auto
      qed
    qed
  qed
qed

lemma allclose_mat_refl: "allclose_mat m m"
  by (cases m rule: mat3_exhaust) (simp add: allclose_mat_def allclose_def isclose_def)

lemma gengroup_identity:
  assumes g: "gengroup self = Inr Gs" and d: "list_all (distinct_mod_cell (1 / 10 ^ 8)) (basis self)"
  shows "\<lparr>rot = eye3, trans = zero3, cartrot = mat_mul (lattice self) (invlatt self),
           indexmap = map (\<lambda>l. [0..<length l]) (basis self)\<rparr> \<in> set Gs"
proof -
  have b: "map (map (mat_vec (mmap of_int (eye3 :: int mat3)))) (basis self) = basis self"
    by (simp add: map_idI)
  have ok: "allclose_mat (mat_mul (transpose3 (mmap of_int (eye3 :: int mat3)))
      (mat_mul (metric self) (mmap of_int (eye3 :: int mat3)))) (metric self)"
  proof -
    have "transpose3 (eye3 :: real mat3) = eye3" by (simp add: eye3_def transpose3_def)
    then show ?thesis by (simp add: allclose_mat_refl)
  qed
  from gengroup_loop_complete [OF g [unfolded gengroup_def]]
  have "\<forall>s \<in> set (candidate_supercells (metric self)).
    allclose_mat (mat_mul (transpose3 (mmap of_int s)) (mat_mul (metric self) (mmap of_int s))) (metric self) \<longrightarrow>
    (\<exists>r. maptranslation (basis self) (map (map (mat_vec (mmap of_int s))) (basis self)) (1 / 10 ^ 8) = Inr r \<and>
       (\<forall>t im. r = Some (t, im) \<longrightarrow>
          \<lparr>rot = s, trans = t, cartrot = mat_mul (lattice self) (mat_mul (mmap of_int s) (invlatt self)),
            indexmap = im\<rparr> \<in> set Gs))" by blast
  from this [rule_format, OF identity_candidate ok]
  obtain r where r: "maptranslation (basis self) (basis self) (1 / 10 ^ 8) = Inr r"
    "\<forall>t im. r = Some (t, im) \<longrightarrow>
          \<lparr>rot = eye3, trans = t, cartrot = mat_mul (lattice self) (mat_mul (mmap of_int (eye3 :: int mat3)) (invlatt self)),
            indexmap = im\<rparr> \<in> set Gs"
    unfolding b by blast
  have "r = Some (zero3, map (\<lambda>l. [0..<length l]) (basis self))"
    by (rule maptranslation_self [OF _ d r(1)]) simp
  with r(2) show ?thesis by (auto simp: zero3_def)
qed

section \<open>Classes of the jump network\<close>

lemma vneg_vneg [simp]: "vneg (vneg v) = (v :: real vec3)"
  by (cases v) (simp add: vneg_def vmap_def)

lemma reverse_closed_append:
  assumes "reverse_closed cls"
  shows "reverse_closed (cls @ [((i, j), dx), ((j, i), vneg dx)])"
  using assms by (auto simp: reverse_closed_def list_all_iff)

lemma orbit_step_reverse_closed:
  assumes "orbit_step self chem i j n g acc = Inr cls" "reverse_closed acc"
  shows "reverse_closed cls"
proof -
  from assms(1) obtain tup dx where "cls = acc \<or> cls = acc @ [(tup, dx), ((snd tup, fst tup), vneg dx)]"
    by (auto simp: orbit_step_def split: sum.splits if_splits)
  then show ?thesis
    using assms(2) reverse_closed_append [of acc "fst tup" "snd tup" dx] by auto
qed

lemma orbit_step_image:
  assumes "orbit_step self chem i j n g acc = Inr cls"
  shows "set acc \<subseteq> set cls \<and>
    (\<exists>tup dx v. g_jump self chem i j n g = Inr (tup, dx) \<and> (tup, v) \<in> set cls \<and> allclose dx v)"
proof -
  from assms obtain tup dx where gj: "g_jump self chem i j n g = Inr (tup, dx)"
    by (auto simp: orbit_step_def split: sum.splits)
  have refl: "allclose dx dx" by (cases dx) (simp add: allclose_def isclose_def)
  show ?thesis
  proof (cases "list_ex (\<lambda>(ij, v). tup = ij \<and> allclose dx v) acc")
    case True
    with assms gj have "cls = acc" by (simp add: orbit_step_def)
    moreover from True obtain v where "(tup, v) \<in> set acc" "allclose dx v"
      by (auto simp: list_ex_iff)
    ultimately show ?thesis using gj by blast
  next
    case False
    with assms gj have "cls = acc @ [(tup, dx), ((snd tup, fst tup), vneg dx)]"
      by (simp add: orbit_step_def)
    then have "set acc \<subseteq> set cls" "(tup, dx) \<in> set cls" by auto
    then show ?thesis using gj refl by blast
  qed
qed

lemma foldM_orbit:
  assumes "foldM (orbit_step self chem i j n) Gs acc = Inr cls"
  shows "(reverse_closed acc \<longrightarrow> reverse_closed cls) \<and> set acc \<subseteq> set cls \<and>
    (\<forall>g \<in> set Gs. \<exists>tup dx v. g_jump self chem i j n g = Inr (tup, dx) \<and>
        (tup, v) \<in> set cls \<and> allclose dx v)"
  using assms
proof (induction Gs arbitrary: acc)
  case Nil
  then show ?case by simp
next
  case (Cons g Gs)
  from Cons.prems obtain mid where m: "orbit_step self chem i j n g acc = Inr mid"
    "foldM (orbit_step self chem i j n) Gs mid = Inr cls"
    by (auto split: sum.splits)
  note ih = Cons.IH [OF m(2)]
  note st = orbit_step_image [OF m(1)]
  from st obtain tup dx v where g: "g_jump self chem i j n g = Inr (tup, dx)"
    "(tup, v) \<in> set mid" "allclose dx v" by blast
  with ih have "\<exists>tup dx v. g_jump self chem i j n g = Inr (tup, dx) \<and>
        (tup, v) \<in> set cls \<and> allclose dx v" by blast
  with ih st orbit_step_reverse_closed [OF m(1)] show ?case by auto
qed

lemma orbit_props:
  assumes "orbit self chem i j n = Inr cls"
  shows "reverse_closed cls"
    and "\<forall>g \<in> set (G self). \<exists>tup dx v. g_jump self chem i j n g = Inr (tup, dx) \<and>
        (tup, v) \<in> set cls \<and> allclose dx v"
  using foldM_orbit [of self chem i j n "G self" "[]" cls] assms
  by (simp_all add: orbit_def reverse_closed_def)

lemma foldM_jump_step:
  assumes "foldM (jump_step self chem r2) cands lis = Inr lis'" "cls \<in> set lis'"
  shows "cls \<in> set lis \<or> (\<exists>i u0 j u1 n. ((i, u0), (j, u1), n) \<in> set cands \<and>
      orbit self chem i j n = Inr cls \<and>
      0 < dot (unit2cart self n (vsub u1 u0)) (unit2cart self n (vsub u1 u0)) \<and>
      dot (unit2cart self n (vsub u1 u0)) (unit2cart self n (vsub u1 u0)) < r2)"
  using assms
proof (induction cands arbitrary: lis)
  case Nil
  then show ?case by simp
next
  case (Cons x cands)
  obtain i u0 j u1 n where x: "x = ((i, u0), (j, u1), n)" by (cases x) auto
  from Cons.prems(1) obtain mid where m: "jump_step self chem r2 x lis = Inr mid"
    "foldM (jump_step self chem r2) cands mid = Inr lis'"
    by (auto split: sum.splits)
  from Cons.IH [OF m(2) Cons.prems(2)]
  consider "cls \<in> set mid" | "\<exists>i u0 j u1 n. ((i, u0), (j, u1), n) \<in> set cands \<and>
      orbit self chem i j n = Inr cls \<and>
      0 < dot (unit2cart self n (vsub u1 u0)) (unit2cart self n (vsub u1 u0)) \<and>
      dot (unit2cart self n (vsub u1 u0)) (unit2cart self n (vsub u1 u0)) < r2" by blast
  then show ?case
  proof cases
    case 1
    from m(1) have "mid = lis \<or> (orbit self chem i j n = Inr (last mid) \<and> mid = lis @ [last mid] \<and>
      0 < dot (unit2cart self n (vsub u1 u0)) (unit2cart self n (vsub u1 u0)) \<and>
      dot (unit2cart self n (vsub u1 u0)) (unit2cart self n (vsub u1 u0)) < r2)"
      unfolding x by (auto simp: jump_step_def Let_def split: sum.splits if_splits)
    then show ?thesis
    proof
      assume "mid = lis" with 1 show ?thesis by simp
    next
      assume a: "orbit self chem i j n = Inr (last mid) \<and> mid = lis @ [last mid] \<and>
        0 < dot (unit2cart self n (vsub u1 u0)) (unit2cart self n (vsub u1 u0)) \<and>
        dot (unit2cart self n (vsub u1 u0)) (unit2cart self n (vsub u1 u0)) < r2"
      then have "set mid = set lis \<union> {last mid}"
        using set_append [of lis "[last mid]"] by simp
      with 1 have "cls \<in> set lis \<or> cls = last mid" by auto
      then show ?thesis
      proof
        assume "cls \<in> set lis" then show ?thesis by simp
      next
        assume "cls = last mid"
        with a have "((i, u0), (j, u1), n) \<in> set (x # cands) \<and>
          orbit self chem i j n = Inr cls \<and>
          0 < dot (unit2cart self n (vsub u1 u0)) (unit2cart self n (vsub u1 u0)) \<and>
          dot (unit2cart self n (vsub u1 u0)) (unit2cart self n (vsub u1 u0)) < r2"
          by (simp add: x)
        then show ?thesis by blast
      qed
    qed
  next
    case 2
    then obtain i u0 j u1 n where h: "((i, u0), (j, u1), n) \<in> set cands"
      "orbit self chem i j n = Inr cls"
      "0 < dot (unit2cart self n (vsub u1 u0)) (unit2cart self n (vsub u1 u0))"
      "dot (unit2cart self n (vsub u1 u0)) (unit2cart self n (vsub u1 u0)) < r2"
      by blast
    from h(1) have "((i, u0), (j, u1), n) \<in> set (x # cands)" by simp
    with h(2,3,4) show ?thesis by blast
  qed
qed

lemma filter_pass_subset:
  "filter_pass hit kept xs = Inr ys \<Longrightarrow> set ys \<subseteq> set kept \<union> set xs"
proof (induction hit kept xs rule: filter_pass.induct)
  case (1 hit kept)
  then show ?case by simp
next
  case (2 hit kept rest)
  then show ?case by simp
next
  case (3 hit kept t ts rest)
  then show ?case
    by (auto split: sum.splits bool.splits if_splits)
qed

lemma foldM_subset:
  assumes "\<And>x s s'. f x s = Inr s' \<Longrightarrow> set s' \<subseteq> set s"
  shows "foldM f xs s = Inr s' \<Longrightarrow> set s' \<subseteq> set s"
proof (induction xs arbitrary: s)
  case Nil
  then show ?case by simp
next
  case (Cons x xs)
  then obtain mid where "f x s = Inr mid" "foldM f xs mid = Inr s'" by (auto split: sum.splits)
  with Cons.IH assms show ?case by blast
qed

lemma filter_species_subset:
  assumes "filter_species self chem sv x lis = Inr lis'"
  shows "set lis' \<subseteq> set lis"
proof -
  obtain c m where x: "x = (c, m)" by (cases x)
  show ?thesis
  proof (cases "m < 0")
    case True
    with assms x show ?thesis by (simp add: filter_species_def)
  next
    case False
    with assms x obtain atomlist where
      "foldM (\<lambda>(u0, n) lis'. filter_pass (collides self chem m u0 n) [] lis')
             [(u0, n). u0 \<leftarrow> atomlist, n \<leftarrow> sv] lis = Inr lis'"
      by (auto simp: filter_species_def split: sum.splits)
    moreover have "set s' \<subseteq> set s"
      if "(case y of (u0, n) \<Rightarrow> \<lambda>lis'. filter_pass (collides self chem m u0 n) [] lis') s = Inr s'"
      for y s s'
      using that filter_pass_subset [of _ "[]" s s'] by (cases y) auto
    ultimately show ?thesis by (rule foldM_subset [rotated])
  qed
qed

lemma collision_filter_subset:
  assumes "collision_filter self chem sv c2l lis = Inr lis'"
  shows "set lis' \<subseteq> set lis"
  using assms unfolding collision_filter_def
  by (rule foldM_subset [rotated]) (rule filter_species_subset)

lemma sort_classes_set: "sort_classes lis = Inr lis' \<Longrightarrow> set lis' = set lis"
  by (auto simp: sort_classes_def split: if_splits)

lemma jumpnetwork_class:
  assumes "jumpnetwork self chem cutoff cd = Inr net" "cls \<in> set net"
  shows "\<exists>i j n. seeded self chem (cutoff * cutoff) cls i j n"
proof -
  from assms(1) obtain nm lis lis' where s: "nmax self = Inr nm"
    "jump_classes self chem (cutoff * cutoff) (supervect nm) = Inr lis"
    "collision_filter self chem (supervect nm) (closest2list self chem cd) lis = Inr lis'"
    "sort_classes lis' = Inr net"
    by (auto simp: jumpnetwork_def split: sum.splits)
  from assms(2) sort_classes_set [OF s(4)] collision_filter_subset [OF s(3)]
  have c: "cls \<in> set lis" by auto
  from s(2) obtain atomlist where a: "py_index (basis self) chem = Inr atomlist"
    "foldM (jump_step self chem (cutoff * cutoff))
       [(iu0, ju1, n). iu0 \<leftarrow> enumerate 0 atomlist, ju1 \<leftarrow> enumerate 0 atomlist,
          n \<leftarrow> supervect nm] [] = Inr lis"
    by (auto simp: jump_classes_def split: sum.splits)
  from foldM_jump_step [OF a(2) c] obtain i u0 j u1 n where
    m: "(i, u0) \<in> set (enumerate 0 atomlist)" "(j, u1) \<in> set (enumerate 0 atomlist)"
    and o: "orbit self chem i j n = Inr cls"
      "0 < dot (unit2cart self n (vsub u1 u0)) (unit2cart self n (vsub u1 u0))"
      "dot (unit2cart self n (vsub u1 u0)) (unit2cart self n (vsub u1 u0)) < cutoff * cutoff"
    by auto
  from m a(1) have "site self (chem, i) = Inr u0" "site self (chem, j) = Inr u1"
    by (auto simp: site_def py_index_def in_set_enumerate_eq split: if_splits)
  with o have "seeded self chem (cutoff * cutoff) cls i j n" by (simp add: seeded_def)
  then show ?thesis by blast
qed


section \<open>The algebra of group operations\<close>







section \<open>Index maps of the generated group\<close>





section \<open>Determinants of the accepted rotations\<close>

text \<open>
  C5 (as stated, refuted): the group of the orthorhombic two-atom crystal contains the
  inversion, whose integer rotation has determinant -1.
\<close>

theorem C5_unit_determinant_counterexample:
  "Crystal_init ex_lattice ex_basis_in False False = Some (Inr ex_crystal) \<and>
   ex_inversion \<in> set (G ex_crystal) \<and> det3 (rot ex_inversion) = - 1"
  using ex_init by (simp add: ex_crystal_def ex_G_def) (simp add: ex_inversion_def mat_defs)

text \<open>
  C5 (amended): the search keeps a candidate when \<^verbatim>\<open>abs(np.inner(r0, np.cross(r1, r2))) == 1\<close>,
  so every operation of the generated group has a rotation taken from the candidates and
  its determinant is +1 or -1.
\<close>

theorem C5_determinant_plus_minus_one:
  assumes "gengroup self = Inr Gs" and "g \<in> set Gs"
  shows "rot g \<in> set (candidate_supercells (metric self)) \<and>
         (det3 (rot g) = 1 \<or> det3 (rot g) = - 1)"
proof -
  from gengroup_members [OF assms]
  have r: "rot g \<in> set (candidate_supercells (metric self))" by (simp add: accepted_def)
  from candidate_det [OF r] r show ?thesis by auto
qed

text \<open>The theorem at the screw rotation of the orthorhombic example.\<close>

theorem C5_determinant_plus_minus_one_witness:
  "gengroup ex_crystal = Inr ex_G \<and> ex_screw \<in> set ex_G \<and>
   (det3 (rot ex_screw) = 1 \<or> det3 (rot ex_screw) = - 1)"
proof -
  have a: "ex_screw \<in> set ex_G" by (simp add: ex_G_def)
  from C5_determinant_plus_minus_one [OF ex_gengroup a] a ex_gengroup show ?thesis by simp
qed

section \<open>A crystal with a single atom\<close>

text \<open>
  C9: whenever the construction returns a crystal with \<open>N = 1\<close>, its stored basis is
  \<open>[[(0, 0, 0)]]\<close>, whatever position (and whatever lattice and flags) the caller supplied:
  \<^verbatim>\<open>center\<close> overwrites the basis and nothing after it writes the basis again.
\<close>

theorem C9_single_atom_basis:
  assumes "Crystal_init latt bas NOSYM noreduce = Some (Inr c)" and "N c = 1"
  shows "basis c = [[(0, 0, 0)]]"
proof -
  from assms(1) obtain self2 self3 self4 where s: "init_fields self2 = Inr self3"
    "center self3 = Inr self4" "init_group NOSYM self4 = Inr c"
    by (rule Crystal_init_stages)
  have "N self3 = 1"
    using assms(2) init_group_fields(2) [OF s(3)] center_fields(1) [OF s(2)] by simp
  from center_single [OF s(2) this] init_group_fields(1) [OF s(3)] show ?thesis by simp
qed

text \<open>
  The theorem at the orthorhombic lattice with one atom supplied at (0.3, 0.2, 1/7).
\<close>

theorem C9_single_atom_basis_witness:
  "Crystal_init ex_lattice [[(3 / 10, 1 / 5, 1 / 7)]] False False = Some (Inr ex_single) \<and>
   N ex_single = 1 \<and> basis ex_single = [[(0, 0, 0)]]"
proof -
  have n: "N ex_single = 1" by (simp add: ex_single_def)
  from C9_single_atom_basis [OF ex_single_init n] ex_single_init n show ?thesis by simp
qed

section \<open>Idempotence of lattice minimization\<close>

text \<open>
  C7: \<^verbatim>\<open>minlattice\<close> is idempotent. Whenever a run of \<^verbatim>\<open>minlattice\<close> returns a crystal, that
  crystal is minimized (sorted by squared length, right-handed, no pairwise reduction left),
  and running \<^verbatim>\<open>minlattice\<close> on it returns it with the lattice and the basis unchanged.
\<close>

theorem C7_minlattice_idempotent:
  assumes "minlattice self = Some (Inr self')"
  shows "minlattice self' = Some (Inr self')"
  using minlattice_result_minimized [OF assms] by (simp add: minlattice_minimized)

text \<open>The theorem at the skewed cubic lattice, which takes two passes to minimize.\<close>

theorem C7_minlattice_idempotent_witness:
  "minlattice ex_skew = Some (Inr ex_skew_min) \<and> minlattice ex_skew_min = Some (Inr ex_skew_min)"
  using C7_minlattice_idempotent [OF ex_skew_minlattice] ex_skew_minlattice by simp

section \<open>The neighbour list\<close>

lemma set_supervect:
  "set (supervect (k0, k1, k2)) =
     {(n0, n1, n2). - k0 \<le> n0 \<and> n0 \<le> k0 \<and> - k1 \<le> n1 \<and> n1 \<le> k1 \<and> - k2 \<le> n2 \<and> n2 \<le> k2}"
  by (auto simp: supervect_def) force

lemma nnlist_sound:
  assumes "nnlist self ind cutoff = Inr lis" and "dx \<in> set lis"
  shows "0 < dot dx dx \<and> dot dx dx < cutoff * cutoff \<and>
     (\<exists>nm u0 atomlist u1 n. nmax self = Inr nm \<and> site self ind = Inr u0 \<and>
        py_index (basis self) (fst ind) = Inr atomlist \<and> u1 \<in> set atomlist \<and>
        n \<in> set (supervect nm) \<and> dx = unit2cart self n (vsub u1 u0))"
  using assms by (auto simp: nnlist_def split: sum.splits if_splits) blast+

lemma sqrt_squares [simp]: "sqrt 4 = 2" "sqrt 9 = 3"
proof -
  have "sqrt (2 * 2) = (2::real)" "sqrt (3 * 3) = (3::real)"
    by (rule real_sqrt_unique; simp add: power2_eq_square)+
  then show "sqrt 4 = 2" "sqrt 9 = 3" by simp_all
qed

lemma ex_single_nmax: "nmax ex_single = Inr (2, 3, 4)"
  by (simp add: nmax_def ex_single_def mdiag_def np_round_def)

text \<open>
  C4 (the code misses neighbours): the range of lattice translations that \<^verbatim>\<open>nnlist\<close> scans is
  \<open>round(sqrt(metric[i,i])) + 1\<close> per axis, whatever the cutoff. For the orthorhombic crystal
  with one atom the range is (2, 3, 4); with cutoff 3.5 the displacement (3, 0, 0) to the
  third cell along the first axis has length 3, inside the cutoff, and is not returned,
  while (2, 0, 0) is. Every vector that is returned does lie in (0, cutoff)
  (\<open>nnlist_sound\<close>).
\<close>

theorem C4_nnlist_misses_neighbour:
  "nmax ex_single = Inr (2, 3, 4) \<and>
   unit2cart ex_single (3, 0, 0) (vsub (0, 0, 0) (0, 0, 0)) = (3, 0, 0) \<and>
   0 < dot (3, 0, 0) (3, 0, 0 :: real) \<and> dot (3, 0, 0) (3, 0, 0 :: real) < (7 / 2) * (7 / 2) \<and>
   (case nnlist ex_single (0, 0) (7 / 2) of Inl e \<Rightarrow> False
    | Inr lis \<Rightarrow> (3, 0, 0) \<notin> set lis \<and> (2, 0, 0) \<in> set lis)"
proof -
  obtain lis where l: "nnlist ex_single (0, 0) (7 / 2) = Inr lis"
    by (simp add: nnlist_def ex_single_nmax) (simp add: ex_single_def site_def py_index_def)
  have "(3, 0, 0) \<notin> set lis"
  proof
    assume "(3, 0, 0) \<in> set lis"
    from nnlist_sound [OF l this] obtain n where n: "n \<in> set (supervect (2, 3, 4))"
      "(3, 0, 0) = unit2cart ex_single n (vsub (0, 0, 0) (0, 0, 0))"
      by (auto simp: ex_single_nmax) (auto simp: ex_single_def site_def py_index_def)
    obtain n0 n1 n2 where "n = (n0, n1, n2)" by (cases n) auto
    with n show False
      by (simp add: set_supervect unit2cart_def ex_single_def ex_lattice_def mat_defs)
  qed
  moreover have "(2, 0, 0) \<in> set lis"
  proof -
    have "(2, 0, 0) \<in> set (supervect (2, 3, 4))" by (simp add: set_supervect)
    moreover have "unit2cart ex_single (2, 0, 0) (vsub (0, 0, 0) (0, 0, 0)) = (2, 0, 0)"
      by (simp add: unit2cart_def ex_single_def ex_lattice_def mat_defs)
    ultimately show ?thesis
      using l by (simp add: nnlist_def ex_single_nmax)
        (force simp: ex_single_def site_def py_index_def dot_def)
  qed
  moreover have "unit2cart ex_single (3, 0, 0) (vsub (0, 0, 0) (0, 0, 0)) = (3, 0, 0)"
    by (simp add: unit2cart_def ex_single_def ex_lattice_def mat_defs)
  ultimately show ?thesis using l ex_single_nmax by (simp add: dot_def)
qed


section \<open>Collision thresholds of the moving species\<close>

lemma closest2list_chem:
  assumes "(c, m) \<in> set (enumerate 0 (closest2list self chem cd))" "c = chem"
  shows "m = - 1"
  using assms
  by (cases cd) (auto simp: closest2list_def in_set_enumerate_eq nth_enumerate_eq)

lemma filter_species_skip: "filter_species self chem sv (c, - 1) lis = Inr lis"
  by (simp add: filter_species_def)

lemma foldM_filter_skip:
  assumes "\<And>x s. x \<in> set xs \<Longrightarrow> \<not> P x \<Longrightarrow> f x s = Inr s"
  shows "foldM f xs s = foldM f (filter P xs) s"
  using assms
proof (induction xs arbitrary: s)
  case Nil
  then show ?case by simp
next
  case (Cons x xs)
  show ?case
  proof (cases "P x")
    case True
    then show ?thesis using Cons by (auto split: sum.splits)
  next
    case False
    then have "f x s = Inr s" using Cons.prems by simp
    then show ?thesis using False Cons by simp
  qed
qed

text \<open>
  C10: in \<^verbatim>\<open>jumpnetwork\<close> the squared threshold of species \<open>chem\<close> is -1 whatever the caller
  passes (a scalar or a list entry, positive or not); the pass over the atoms of a species
  with threshold -1 leaves the list of classes as it is; so the whole collision filter
  equals the filter run over the species other than \<open>chem\<close>, and no class is removed
  because of an atom of species \<open>chem\<close>.
\<close>

theorem C10_no_filter_on_moving_species:
  "(chem < length (closest2list self chem closestdistance) \<longrightarrow>
      closest2list self chem closestdistance ! chem = - 1) \<and>
   filter_species self chem sv (chem, - 1) lis = Inr lis \<and>
   collision_filter self chem sv (closest2list self chem closestdistance) lis =
     foldM (filter_species self chem sv)
       (filter (\<lambda>(c, mindist2). c \<noteq> chem) (enumerate 0 (closest2list self chem closestdistance))) lis"
proof (intro conjI impI)
  assume "chem < length (closest2list self chem closestdistance)"
  then have "(chem, closest2list self chem closestdistance ! chem)
      \<in> set (enumerate 0 (closest2list self chem closestdistance))"
    by (simp add: in_set_enumerate_eq)
  then show "closest2list self chem closestdistance ! chem = - 1"
    by (rule closest2list_chem) simp
next
  show "filter_species self chem sv (chem, - 1) lis = Inr lis" by (rule filter_species_skip)
next
  show "collision_filter self chem sv (closest2list self chem closestdistance) lis =
     foldM (filter_species self chem sv)
       (filter (\<lambda>(c, mindist2). c \<noteq> chem) (enumerate 0 (closest2list self chem closestdistance))) lis"
    unfolding collision_filter_def
  proof (rule foldM_filter_skip)
    fix x s
    assume x: "x \<in> set (enumerate 0 (closest2list self chem closestdistance))"
      and n: "\<not> (case x of (c, mindist2) \<Rightarrow> c \<noteq> chem)"
    obtain c m where cm: "x = (c, m)" by (cases x)
    with n have "c = chem" by simp
    with closest2list_chem x cm have "m = - 1" by blast
    with cm \<open>c = chem\<close> show "filter_species self chem sv x s = Inr s"
      by (simp add: filter_species_skip)
  qed
qed

text \<open>
  The theorem at the orthorhombic two-atom crystal, species 0, with the positive
  per-species threshold list [0.5].
\<close>

theorem C10_no_filter_on_moving_species_witness:
  "0 < length (closest2list ex_crystal 0 (PerSpecies [1 / 2])) \<and>
   closest2list ex_crystal 0 (PerSpecies [1 / 2]) ! 0 = - 1 \<and>
   collision_filter ex_crystal 0 (supervect (2, 3, 4))
     (closest2list ex_crystal 0 (PerSpecies [1 / 2])) [] = Inr []"
  using C10_no_filter_on_moving_species
    [of 0 ex_crystal "PerSpecies [1 / 2]" "supervect (2, 3, 4)" "[]"]
  by (simp add: closest2list_def)
end
